theory Spec2Isabelle
  imports Main "HOL-Library.Word" "HOL-Library.Sublist" "HOL-Library.Multiset"
begin

section \<open>JavaScript strings\<close>

text \<open>
  A JavaScript string is a sequence of UTF-16 code units. Every string operation the
  service uses (\<^verbatim>\<open>trim\<close>, \<^verbatim>\<open>startsWith\<close>, \<^verbatim>\<open>endsWith\<close>, \<^verbatim>\<open>slice\<close>,
  anchored \<^verbatim>\<open>replace\<close>, concatenation) works on code units, so the model is a list of
  16-bit words. \<open>ascii\<close> embeds an ASCII literal of the source.
\<close>

type_synonym jsstring = "16 word list"

definition ascii :: "string \<Rightarrow> jsstring" where
  "ascii s = map (\<lambda>c. of_nat (of_char c)) s"

text \<open>Truthiness of a string: only the empty string is falsy.\<close>

definition truthy :: "jsstring \<Rightarrow> bool" where
  "truthy s = (s \<noteq> [])"

text \<open>\<^verbatim>\<open>x || d\<close> where \<open>x\<close> is a string or \<^verbatim>\<open>undefined\<close> and \<open>d\<close> a string.\<close>

definition orElse :: "jsstring option \<Rightarrow> jsstring \<Rightarrow> jsstring" where
  "orElse x d = (case x of None \<Rightarrow> d | Some s \<Rightarrow> if truthy s then s else d)"

definition startsWith :: "jsstring \<Rightarrow> jsstring \<Rightarrow> bool" where
  "startsWith s p = (take (length p) s = p)"

definition endsWith :: "jsstring \<Rightarrow> jsstring \<Rightarrow> bool" where
  "endsWith s p = (length p \<le> length s \<and> drop (length s - length p) s = p)"

text \<open>
  \<^verbatim>\<open>s.slice(start, end)\<close>: a negative index counts from the end, and both indices are
  clamped to the string.
\<close>

definition slice_index :: "nat \<Rightarrow> int \<Rightarrow> nat" where
  "slice_index len i = (if i < 0 then nat (max (int len + i) 0) else min (nat i) len)"

definition slice :: "jsstring \<Rightarrow> int \<Rightarrow> int \<Rightarrow> jsstring" where
  "slice s start stop =
     (let from = slice_index (length s) start; to = slice_index (length s) stop
      in take (to - from) (drop from s))"

text \<open>
  \<^verbatim>\<open>s.trim()\<close> removes the white space and line terminators of ECMAScript from both
  ends: TAB, LF, VT, FF, CR, SP, NBSP, U+1680, U+2000 to U+200A, LS, PS, U+202F, U+205F,
  U+3000 and the byte order mark.
\<close>

definition isWhiteSpace :: "16 word \<Rightarrow> bool" where
  "isWhiteSpace c =
     (c = 0x09 \<or> c = 0x0A \<or> c = 0x0B \<or> c = 0x0C \<or> c = 0x0D \<or> c = 0x20 \<or> c = 0xA0
      \<or> c = 0x1680 \<or> (0x2000 \<le> c \<and> c \<le> 0x200A) \<or> c = 0x2028 \<or> c = 0x2029
      \<or> c = 0x202F \<or> c = 0x205F \<or> c = 0x3000 \<or> c = 0xFEFF)"

definition trimStart :: "jsstring \<Rightarrow> jsstring" where
  "trimStart s = dropWhile isWhiteSpace s"

definition trimEnd :: "jsstring \<Rightarrow> jsstring" where
  "trimEnd s = rev (dropWhile isWhiteSpace (rev s))"

definition trim :: "jsstring \<Rightarrow> jsstring" where
  "trim s = trimEnd (trimStart s)"

text \<open>
  \<^verbatim>\<open>s.replace(/^p/, '')\<close> for a literal \<open>p\<close>: the match can only be at index 0.
  \<^verbatim>\<open>s.replace(/p$/, '')\<close>: without the \<^verbatim>\<open>m\<close> flag \<^verbatim>\<open>$\<close> is the end of the input, so
  the match can only be the last \<open>length p\<close> code units.
\<close>

definition replaceAtStart :: "jsstring \<Rightarrow> jsstring \<Rightarrow> jsstring" where
  "replaceAtStart p s = (if startsWith s p then drop (length p) s else s)"

definition replaceAtEnd :: "jsstring \<Rightarrow> jsstring \<Rightarrow> jsstring" where
  "replaceAtEnd p s = (if endsWith s p then take (length s - length p) s else s)"

text \<open>\<^verbatim>\<open>s.includes(p)\<close>.\<close>

fun includes_str :: "jsstring \<Rightarrow> jsstring \<Rightarrow> bool" where
  "includes_str [] p = (p = [])"
| "includes_str (c # s) p = (startsWith (c # s) p \<or> includes_str s p)"

text \<open>\<^verbatim>\<open>String(n)\<close> of a non-negative integer: its decimal digits.\<close>

fun digits :: "nat \<Rightarrow> jsstring" where
  "digits n = (if n < 10 then [of_nat (48 + n)] else digits (n div 10) @ [of_nat (48 + n mod 10)])"

declare digits.simps [simp del]

text \<open>The number a string of decimal digits denotes.\<close>

definition decimal :: "jsstring \<Rightarrow> nat" where
  "decimal s = foldl (\<lambda>a c. 10 * a + (unat c - 48)) 0 s"

section \<open>Settings\<close>

text \<open>
  \<^verbatim>\<open>AppSettings\<close>. The provider is declared \<^verbatim>\<open>'gemini' | 'openai'\<close>, but the settings
  are read back from local storage, so at run time it is any string.
\<close>

record AppSettings =
  provider :: jsstring
  apiKey :: jsstring
  model :: jsstring
  timezone :: jsstring
  baseUrl :: "jsstring option"

section \<open>Base URL\<close>

text \<open>
  Both the chat-completion adapter and the models probe compute the base URL in two
  statements: \<^verbatim>\<open>let baseUrl = x || "https://api.openai.com/v1"\<close>, then
  \<^verbatim>\<open>if (baseUrl.endsWith('/')) baseUrl = baseUrl.slice(0, -1)\<close>.
\<close>

definition generate_baseUrl :: "AppSettings \<Rightarrow> jsstring" where
  "generate_baseUrl settings =
     (let baseUrl = orElse (baseUrl settings) (ascii ''https://api.openai.com/v1'')
      in if endsWith baseUrl (ascii ''/'') then slice baseUrl 0 (- 1) else baseUrl)"

definition verify_baseUrl :: "AppSettings \<Rightarrow> jsstring" where
  "verify_baseUrl formData =
     (let baseUrl = orElse (baseUrl formData) (ascii ''https://api.openai.com/v1'')
      in if endsWith baseUrl (ascii ''/'') then slice baseUrl 0 (- 1) else baseUrl)"


section \<open>JSON values and \<^verbatim>\<open>JSON.parse\<close>\<close>

text \<open>
  The value \<^verbatim>\<open>JSON.parse\<close> builds. A number is kept as its literal (the double it
  denotes is not computed), an object as its members in source order; a property read
  takes the last member of that name, as the later definition overwrites the earlier.
\<close>

datatype json =
    JNull
  | JBool bool
  | JNumber jsstring
  | JString jsstring
  | JArray "json list"
  | JObject "(jsstring \<times> json) list"

datatype token =
    TLBrace | TRBrace | TLBracket | TRBracket | TColon | TComma
  | TString jsstring | TNumber jsstring | TTrue | TFalse | TNull

text \<open>
  The lexer is the automaton of the JSON grammar (ECMA-404), run over the code units.
  A number literal is \<^verbatim>\<open>-? (0 | [1-9][0-9]*) (. [0-9]+)? ([eE] [+-]? [0-9]+)?\<close>; the
  stages name the position inside it.
\<close>

datatype numstage = NMinus | NZero | NInt | NPoint | NFrac | NE | NESign | NExp

datatype lexstate =
    LStart
  | LString jsstring
  | LEscape jsstring
  | LHex jsstring nat "16 word"
  | LNumber numstage jsstring
  | LWord jsstring token
  | LFail

definition code_unit :: "char \<Rightarrow> 16 word" where
  "code_unit c = of_nat (of_char c)"

definition isJsonWS :: "16 word \<Rightarrow> bool" where
  "isJsonWS c = (c = 0x09 \<or> c = 0x0A \<or> c = 0x0D \<or> c = 0x20)"

definition isDigit :: "16 word \<Rightarrow> bool" where
  "isDigit c = (0x30 \<le> c \<and> c \<le> 0x39)"

definition hexValue :: "16 word \<Rightarrow> 16 word option" where
  "hexValue c =
     (if 0x30 \<le> c \<and> c \<le> 0x39 then Some (c - 0x30)
      else if 0x41 \<le> c \<and> c \<le> 0x46 then Some (c - 0x41 + 10)
      else if 0x61 \<le> c \<and> c \<le> 0x66 then Some (c - 0x61 + 10)
      else None)"

definition lexNumber :: "numstage \<Rightarrow> 16 word \<Rightarrow> numstage option" where
  "lexNumber stage c =
     (let isExp = (c = code_unit CHR ''e'' \<or> c = code_unit CHR ''E'');
          isSign = (c = code_unit CHR ''+'' \<or> c = code_unit CHR ''-'');
          isPoint = (c = code_unit CHR ''.'')
      in case stage of
           NMinus \<Rightarrow> if c = 0x30 then Some NZero else if isDigit c then Some NInt else None
         | NZero \<Rightarrow> if isPoint then Some NPoint else if isExp then Some NE else None
         | NInt \<Rightarrow> if isDigit c then Some NInt else if isPoint then Some NPoint
                   else if isExp then Some NE else None
         | NPoint \<Rightarrow> if isDigit c then Some NFrac else None
         | NFrac \<Rightarrow> if isDigit c then Some NFrac else if isExp then Some NE else None
         | NE \<Rightarrow> if isSign then Some NESign else if isDigit c then Some NExp else None
         | NESign \<Rightarrow> if isDigit c then Some NExp else None
         | NExp \<Rightarrow> if isDigit c then Some NExp else None)"

definition numberComplete :: "numstage \<Rightarrow> bool" where
  "numberComplete stage = (stage = NZero \<or> stage = NInt \<or> stage = NFrac \<or> stage = NExp)"

definition lexStart :: "token list \<Rightarrow> 16 word \<Rightarrow> token list \<times> lexstate" where
  \<open>lexStart ts c =
     (if isJsonWS c then (ts, LStart)
      else if c = code_unit CHR ''{'' then (ts @ [TLBrace], LStart)
      else if c = code_unit CHR ''}'' then (ts @ [TRBrace], LStart)
      else if c = code_unit CHR ''['' then (ts @ [TLBracket], LStart)
      else if c = code_unit CHR '']'' then (ts @ [TRBracket], LStart)
      else if c = code_unit CHR '':'' then (ts @ [TColon], LStart)
      else if c = code_unit CHR '','' then (ts @ [TComma], LStart)
      else if c = code_unit CHR ''"'' then (ts, LString [])
      else if c = code_unit CHR ''-'' then (ts, LNumber NMinus [c])
      else if c = 0x30 then (ts, LNumber NZero [c])
      else if isDigit c then (ts, LNumber NInt [c])
      else if c = code_unit CHR ''t'' then (ts, LWord (ascii ''rue'') TTrue)
      else if c = code_unit CHR ''f'' then (ts, LWord (ascii ''alse'') TFalse)
      else if c = code_unit CHR ''n'' then (ts, LWord (ascii ''ull'') TNull)
      else (ts, LFail))\<close>

text \<open>
  The character after a backslash. \<^verbatim>\<open>\u\<close> starts four hexadecimal digits, which
  give one code unit.
\<close>

definition lexEscape :: "jsstring \<Rightarrow> 16 word \<Rightarrow> lexstate" where
  \<open>lexEscape acc c =
     (if c = code_unit CHR ''"'' \<or> c = code_unit CHR 0x5C \<or> c = code_unit CHR ''/''
      then LString (acc @ [c])
      else if c = code_unit CHR ''b'' then LString (acc @ [0x08])
      else if c = code_unit CHR ''f'' then LString (acc @ [0x0C])
      else if c = code_unit CHR ''n'' then LString (acc @ [0x0A])
      else if c = code_unit CHR ''r'' then LString (acc @ [0x0D])
      else if c = code_unit CHR ''t'' then LString (acc @ [0x09])
      else if c = code_unit CHR ''u'' then LHex acc 0 0
      else LFail)\<close>

fun lexStep :: "token list \<times> lexstate \<Rightarrow> 16 word \<Rightarrow> token list \<times> lexstate" where
  \<open>lexStep (ts, LStart) c = lexStart ts c\<close>
| \<open>lexStep (ts, LString acc) c =
     (if c = code_unit CHR ''"'' then (ts @ [TString acc], LStart)
      else if c = code_unit CHR 0x5C then (ts, LEscape acc)
      else if c < 0x20 then (ts, LFail)
      else (ts, LString (acc @ [c])))\<close>
| \<open>lexStep (ts, LEscape acc) c = (ts, lexEscape acc c)\<close>
| \<open>lexStep (ts, LHex acc k v) c =
     (case hexValue c of
        None \<Rightarrow> (ts, LFail)
      | Some h \<Rightarrow> if k = 3 then (ts, LString (acc @ [v * 16 + h]))
                  else (ts, LHex acc (Suc k) (v * 16 + h)))\<close>
| \<open>lexStep (ts, LNumber stage lexeme) c =
     (case lexNumber stage c of
        Some stage' \<Rightarrow> (ts, LNumber stage' (lexeme @ [c]))
      | None \<Rightarrow> if numberComplete stage then lexStart (ts @ [TNumber lexeme]) c
                else (ts, LFail))\<close>
| \<open>lexStep (ts, LWord rest tok) c =
     (case rest of
        [] \<Rightarrow> (ts, LFail)
      | r # rs \<Rightarrow> if c \<noteq> r then (ts, LFail)
                  else if rs = [] then (ts @ [tok], LStart)
                  else (ts, LWord rs tok))\<close>
| \<open>lexStep (ts, LFail) c = (ts, LFail)\<close>

fun lexFinish :: "token list \<times> lexstate \<Rightarrow> token list option" where
  "lexFinish (ts, LStart) = Some ts"
| "lexFinish (ts, LNumber stage lexeme) =
     (if numberComplete stage then Some (ts @ [TNumber lexeme]) else None)"
| "lexFinish (ts, _) = None"

definition tokenize :: "jsstring \<Rightarrow> token list option" where
  "tokenize s = lexFinish (foldl lexStep ([], LStart) s)"

text \<open>
  The letters a literal still expects are never white space; this holds in every state
  the lexer reaches.
\<close>

fun wordPending :: "lexstate \<Rightarrow> jsstring" where
  "wordPending (LWord rest tok) = rest"
| "wordPending _ = []"

text \<open>
  The parser is the pushdown automaton of the grammar, run over the tokens. A frame is
  an array or an object under construction; \<open>InMember ms k\<close> is an object whose member
  \<open>k\<close> awaits its value.
\<close>

datatype frame =
    InArray "json list"
  | InObject "(jsstring \<times> json) list"
  | InMember "(jsstring \<times> json) list" jsstring

datatype pmode =
    PValue          \<comment> \<open>a value must follow\<close>
  | PValueOrClose   \<comment> \<open>after \<^verbatim>\<open>[\<close>: a value or \<^verbatim>\<open>]\<close>\<close>
  | PKeyOrClose     \<comment> \<open>after \<^verbatim>\<open>{\<close>: a member name or \<^verbatim>\<open>}\<close>\<close>
  | PKey            \<comment> \<open>after a comma in an object\<close>
  | PColon          \<comment> \<open>after a member name\<close>
  | PAfter          \<comment> \<open>after a value inside an array or object\<close>
  | PDone json      \<comment> \<open>the whole text was one value\<close>
  | PFail

fun complete :: "frame list \<Rightarrow> json \<Rightarrow> frame list \<times> pmode" where
  "complete [] v = ([], PDone v)"
| "complete (InArray es # st) v = (InArray (es @ [v]) # st, PAfter)"
| "complete (InMember ms k # st) v = (InObject (ms @ [(k, v)]) # st, PAfter)"
| "complete (InObject ms # st) v = (InObject ms # st, PFail)"

fun scalar :: "token \<Rightarrow> json option" where
  "scalar (TString s) = Some (JString s)"
| "scalar (TNumber n) = Some (JNumber n)"
| "scalar TTrue = Some (JBool True)"
| "scalar TFalse = Some (JBool False)"
| "scalar TNull = Some JNull"
| "scalar _ = None"

definition parseValue :: "frame list \<Rightarrow> token \<Rightarrow> frame list \<times> pmode" where
  "parseValue st t =
     (case scalar t of
        Some v \<Rightarrow> complete st v
      | None \<Rightarrow> if t = TLBracket then (InArray [] # st, PValueOrClose)
                else if t = TLBrace then (InObject [] # st, PKeyOrClose)
                else (st, PFail))"

definition parseClose :: "frame list \<Rightarrow> token \<Rightarrow> frame list \<times> pmode" where
  "parseClose st t =
     (case st of
        InArray es # st' \<Rightarrow> if t = TRBracket then complete st' (JArray es) else (st, PFail)
      | InObject ms # st' \<Rightarrow> if t = TRBrace then complete st' (JObject ms) else (st, PFail)
      | _ \<Rightarrow> (st, PFail))"

definition parseKey :: "frame list \<Rightarrow> token \<Rightarrow> frame list \<times> pmode" where
  "parseKey st t =
     (case (st, t) of
        (InObject ms # st', TString k) \<Rightarrow> (InMember ms k # st', PColon)
      | _ \<Rightarrow> (st, PFail))"

fun parseStep :: "frame list \<times> pmode \<Rightarrow> token \<Rightarrow> frame list \<times> pmode" where
  "parseStep (st, PValue) t = parseValue st t"
| "parseStep (st, PValueOrClose) t =
     (if t = TRBracket then parseClose st t else parseValue st t)"
| "parseStep (st, PKeyOrClose) t =
     (if t = TRBrace then parseClose st t else parseKey st t)"
| "parseStep (st, PKey) t = parseKey st t"
| "parseStep (st, PColon) t = (if t = TColon then (st, PValue) else (st, PFail))"
| "parseStep (st, PAfter) t =
     (if t = TComma
      then (case st of
              InArray es # st' \<Rightarrow> (st, PValue)
            | InObject ms # st' \<Rightarrow> (st, PKey)
            | _ \<Rightarrow> (st, PFail))
      else parseClose st t)"
| "parseStep (st, PDone v) t = (st, PFail)"
| "parseStep (st, PFail) t = (st, PFail)"

definition parseTokens :: "token list \<Rightarrow> json option" where
  "parseTokens ts =
     (case foldl parseStep ([], PValue) ts of
        (st, PDone v) \<Rightarrow> Some v
      | _ \<Rightarrow> None)"

text \<open>\<^verbatim>\<open>JSON.parse(text)\<close>; \<open>None\<close> is the \<^verbatim>\<open>SyntaxError\<close> it throws.\<close>

definition JSON_parse :: "jsstring \<Rightarrow> json option" where
  "JSON_parse s = (case tokenize s of None \<Rightarrow> None | Some ts \<Rightarrow> parseTokens ts)"


text \<open>
  Reading a property of a value that is neither \<^verbatim>\<open>null\<close> nor \<^verbatim>\<open>undefined\<close>. \<open>None\<close>
  is \<^verbatim>\<open>undefined\<close>. The service reads \<^verbatim>\<open>choices\<close>, \<^verbatim>\<open>message\<close>, \<^verbatim>\<open>content\<close>,
  \<^verbatim>\<open>data\<close> and \<^verbatim>\<open>id\<close>, none of which is inherited from a prototype, so only an
  object has them.
\<close>

definition member :: "json \<Rightarrow> jsstring \<Rightarrow> json option" where
  "member v k = (case v of JObject ms \<Rightarrow> map_of (rev ms) k | _ \<Rightarrow> None)"

text \<open>\<^verbatim>\<open>x?.k\<close> and \<^verbatim>\<open>x?.[0]\<close>; index 0 of a string is its first code unit.\<close>

definition optMember :: "json option \<Rightarrow> jsstring \<Rightarrow> json option" where
  "optMember x k = (case x of None \<Rightarrow> None | Some JNull \<Rightarrow> None | Some v \<Rightarrow> member v k)"

definition optIndex0 :: "json option \<Rightarrow> json option" where
  "optIndex0 x =
     (case x of
        None \<Rightarrow> None
      | Some JNull \<Rightarrow> None
      | Some (JArray vs) \<Rightarrow> (case vs of [] \<Rightarrow> None | v # _ \<Rightarrow> Some v)
      | Some (JString s) \<Rightarrow> (case s of [] \<Rightarrow> None | c # _ \<Rightarrow> Some (JString [c]))
      | Some v \<Rightarrow> member v (ascii ''0''))"

text \<open>
  \<^verbatim>\<open>!x\<close>. A number literal with mantissa digits \<open>m\<close>, \<open>f\<close> of them after the point, and
  exponent \<open>e\<close> denotes the double nearest to \<open>m * 10 ^ (e - f)\<close>. That double is zero
  when \<open>m\<close> is 0, or when the value is at most \<open>2 ^ - 1075\<close>, half the least positive
  double (the tie goes to zero).
\<close>

definition notExponent :: "16 word \<Rightarrow> bool" where
  "notExponent c = (c \<noteq> code_unit CHR ''e'' \<and> c \<noteq> code_unit CHR ''E'')"

definition literalMantissa :: "jsstring \<Rightarrow> nat" where
  "literalMantissa n = decimal (filter isDigit (takeWhile notExponent n))"

definition literalFraction :: "jsstring \<Rightarrow> nat" where
  "literalFraction n =
     length (filter isDigit (dropWhile (\<lambda>c. c \<noteq> code_unit CHR ''.'') (takeWhile notExponent n)))"

definition literalExponent :: "jsstring \<Rightarrow> int" where
  "literalExponent n =
     (case drop 1 (dropWhile notExponent n) of
        [] \<Rightarrow> 0
      | c # ds \<Rightarrow> if c = code_unit CHR ''-'' then - int (decimal ds)
                  else if c = code_unit CHR ''+'' then int (decimal ds)
                  else int (decimal (c # ds)))"

definition isZeroLiteral :: "jsstring \<Rightarrow> bool" where
  "isZeroLiteral n =
     (let m = literalMantissa n; e = literalExponent n - int (literalFraction n)
      in m = 0 \<or> (e < 0 \<and> m * 2 ^ 1075 \<le> 10 ^ nat (- e)))"

fun falsy :: "json option \<Rightarrow> bool" where
  "falsy None = True"
| "falsy (Some JNull) = True"
| "falsy (Some (JBool b)) = (\<not> b)"
| "falsy (Some (JNumber n)) = isZeroLiteral n"
| "falsy (Some (JString s)) = (\<not> truthy s)"
| "falsy (Some (JArray vs)) = False"
| "falsy (Some (JObject ms)) = False"

text \<open>
  \<^verbatim>\<open>ApiWeeklyPlanResponse\<close> and \<^verbatim>\<open>ApiDayPlan\<close> of the type declarations, as predicates
  on parsed values: the TypeScript types exist at compile time only.
\<close>

definition isString :: "json option \<Rightarrow> bool" where
  "isString x = (case x of Some (JString s) \<Rightarrow> True | _ \<Rightarrow> False)"

definition isStringArray :: "json option \<Rightarrow> bool" where
  "isStringArray x = (case x of Some (JArray vs) \<Rightarrow> list_all (\<lambda>v. isString (Some v)) vs | _ \<Rightarrow> False)"

definition isApiDayPlan :: "json \<Rightarrow> bool" where
  "isApiDayPlan v =
     (isString (member v (ascii ''dayName'')) \<and> isStringArray (member v (ascii ''tasks''))
      \<and> isStringArray (member v (ascii ''contentIdeas'')))"

definition isApiWeeklyPlanResponse :: "json \<Rightarrow> bool" where
  "isApiWeeklyPlanResponse v =
     (isString (member v (ascii ''refinedGoal''))
      \<and> (case member v (ascii ''schedule'') of
            Some (JArray days) \<Rightarrow> list_all isApiDayPlan days
          | _ \<Rightarrow> False))"

section \<open>The platform\<close>

text \<open>
  What the code throws or a promise rejects with. \<open>Error m\<close> is \<^verbatim>\<open>new Error(m)\<close>; the
  others are raised by the platform: \<open>SyntaxError\<close> by \<^verbatim>\<open>JSON.parse\<close> and
  \<^verbatim>\<open>response.json()\<close>, \<open>TypeError\<close> by a property read of \<^verbatim>\<open>null\<close>, a call of
  something that is not a function, or a failed \<^verbatim>\<open>fetch\<close>, \<open>RangeError\<close> by
  \<^verbatim>\<open>Intl.DateTimeFormat\<close> for a time zone it does not know, \<open>AbortError\<close> by a
  \<^verbatim>\<open>fetch\<close> whose signal was aborted.
\<close>

datatype js_error = Error jsstring | SyntaxError | TypeError | RangeError | AbortError

record request =
  req_method :: jsstring
  req_url :: jsstring
  req_headers :: "(jsstring \<times> jsstring) list"
  req_body :: "json option"   \<comment> \<open>the value given to \<^verbatim>\<open>JSON.stringify\<close>\<close>

record response =
  status :: nat
  statusText :: jsstring
  responseText :: jsstring   \<comment> \<open>\<^verbatim>\<open>response.text()\<close>; \<^verbatim>\<open>response.json()\<close> parses it\<close>

definition ok :: "response \<Rightarrow> bool" where
  "ok r = (200 \<le> status r \<and> status r \<le> 299)"

text \<open>The \<^verbatim>\<open>Schema\<close> of the Gemini SDK, as far as \<^verbatim>\<open>geminiResponseSchema\<close> uses it.\<close>

datatype schema =
    SString "jsstring option"
  | SArray schema
  | SObject "(jsstring \<times> schema) list" "jsstring list"

record generation_config =
  responseMimeType :: jsstring
  responseSchema :: schema
  systemInstruction :: jsstring

record gemini_request =
  sdk_apiKey :: jsstring   \<comment> \<open>\<^verbatim>\<open>new GoogleGenAI({ apiKey })\<close>\<close>
  sdk_model :: jsstring
  sdk_contents :: jsstring
  sdk_config :: "generation_config option"

datatype call = Fetch request | GenerateContent gemini_request

text \<open>
  Everything outside the repository that the service consults. \<open>fetch\<close> and
  \<open>generateContent\<close> are the two network operations (\<open>Inl\<close> is a rejection; the
  second returns \<^verbatim>\<open>response.text\<close>, which may be \<^verbatim>\<open>undefined\<close>). \<open>formatDate tz\<close> is
  \<^verbatim>\<open>new Intl.DateTimeFormat('zh-CN', {timeZone: tz, ...}).format(new Date())\<close>, \<open>None\<close>
  when the constructor rejects \<open>tz\<close>. \<open>env_API_KEY\<close> is \<^verbatim>\<open>process.env.API_KEY\<close>.
  \<open>localeCompare\<close> is \<^verbatim>\<open>String.prototype.localeCompare\<close>, \<open>toString\<close> the conversion
  it applies to an argument that is not a string, and \<open>engineMessage\<close> the
  \<^verbatim>\<open>message\<close> of an error the platform raised.
\<close>

record world =
  fetch :: "request \<Rightarrow> js_error + response"
  generateContent :: "gemini_request \<Rightarrow> js_error + jsstring option"
  formatDate :: "jsstring \<Rightarrow> jsstring option"
  env_API_KEY :: "jsstring option"
  localeCompare :: "jsstring \<Rightarrow> jsstring \<Rightarrow> int"
  toString :: "json option \<Rightarrow> jsstring"
  engineMessage :: "js_error \<Rightarrow> jsstring"

definition message :: "world \<Rightarrow> js_error \<Rightarrow> jsstring" where
  "message w e = (case e of Error m \<Rightarrow> m | _ \<Rightarrow> engineMessage w e)"

definition JSON_parse_throw :: "jsstring \<Rightarrow> js_error + json" where
  "JSON_parse_throw s = (case JSON_parse s of None \<Rightarrow> Inl SyntaxError | Some v \<Rightarrow> Inr v)"

section \<open>Prompt builder\<close>

definition geminiResponseSchema :: schema where
  "geminiResponseSchema =
     SObject
       [(ascii ''refinedGoal'',
           SString (Some (ascii
             ''A professional, concise summary of the remaining goals to be achieved.''))),
        (ascii ''schedule'',
           SArray (SObject
             [(ascii ''dayName'', SString None),
              (ascii ''tasks'', SArray (SString None)),
              (ascii ''contentIdeas'', SArray (SString None))]
             [ascii ''dayName'', ascii ''tasks'', ascii ''contentIdeas'']))]
       [ascii ''refinedGoal'', ascii ''schedule'']"

text \<open>
  The fixed pieces of the two template literals of \<^verbatim>\<open>buildSystemAndUserPrompt\<close>, cut
  at the interpolations, and the block appended for an OpenAI-compatible backend.
  Code units outside ASCII are given by number.
\<close>

definition systemInstruction_1 :: jsstring where
  \<open>systemInstruction_1 =
      ascii ''\<newline>''
      @ ascii ''    ''
      @ [0x4F60, 0x662F, 0x4E00, 0x4E2A, 0x4E13, 0x4E3A, 0x521B, 0x4F5C, 0x8005, 0x670D]
      @ [0x52A1, 0x7684, 0x4E13, 0x4E1A, 0x5185, 0x5BB9, 0x7B56, 0x7565]
      @ ascii ''AI''
      @ [0x52A9, 0x624B, 0x3002]
      @ ascii ''\<newline>''
      @ ascii ''    ''
      @ [0x4E0A, 0x4E0B, 0x6587, 0x4FE1, 0x606F, 0xFF1A, 0x73B0, 0x5728, 0x662F, 0xFF08]
      @ [0x7528, 0x6237, 0x6240, 0x5728, 0x65F6, 0x533A, 0xFF09, 0xFF1A]\<close>

definition systemInstruction_2 :: jsstring where
  \<open>systemInstruction_2 =
      [0x3002]
      @ ascii ''\<newline>''
      @ ascii ''    ''
      @ [0x4F60, 0x662F, 0x4E00, 0x4E2A, 0x4E50, 0x4E8E, 0x52A9, 0x4EBA, 0x4E14, 0x6761]
      @ [0x7406, 0x6E05, 0x6670, 0x7684, 0x5185, 0x5BB9, 0x521B, 0x4F5C, 0x6548, 0x7387]
      @ [0x6559, 0x7EC3, 0x3002]
      @ ascii ''\<newline>''
      @ ascii ''    ''\<close>

definition systemInstruction_important :: jsstring where
  \<open>systemInstruction_important =
      ascii ''IMPORTANT: You MUST return a valid JSON object.''\<close>

definition systemInstruction_3 :: jsstring where
  \<open>systemInstruction_3 =
      ascii ''\<newline>''
      @ ascii ''  ''\<close>

definition prompt_1 :: jsstring where
  \<open>prompt_1 =
      ascii ''\<newline>''
      @ ascii ''    ''
      @ [0x7528, 0x6237, 0x5C06, 0x63D0, 0x4F9B, 0x672C, 0x5468, 0x7684, 0x76EE, 0x6807]
      @ [0x8BF4, 0x660E, 0x3002]
      @ ascii ''\<newline>''
      @ ascii ''    ''
      @ [0x4F60, 0x7684, 0x4EFB, 0x52A1, 0x662F, 0xFF1A]
      @ ascii ''\<newline>''
      @ ascii ''    1. **''
      @ [0x76EE, 0x6807, 0x63D0, 0x70BC, 0xFF08, 0x5173, 0x952E, 0xFF09]
      @ ascii ''**''
      @ [0xFF1A, 0x5206, 0x6790, 0x7528, 0x6237, 0x7684, 0x8F93, 0x5165, 0x3002, 0x5982]
      @ [0x679C, 0x7528, 0x6237, 0x63D0, 0x5230, 0x67D0, 0x4E9B, 0x76EE, 0x6807, 0x201C]
      @ [0x5DF2, 0x7ECF, 0x5B8C, 0x6210, 0x201D, 0xFF0C, 0x8BF7]
      @ ascii ''**''
      @ [0x5254, 0x9664]
      @ ascii ''**''
      @ [0x5B83, 0x4EEC, 0x3002, 0x63D0, 0x53D6, 0x51FA, 0x7528, 0x6237]
      @ ascii ''**''
      @ [0x8FD8, 0x9700, 0x8981, 0x5B8C, 0x6210]
      @ ascii ''**''
      @ [0x7684, 0x6838, 0x5FC3, 0x76EE, 0x6807, 0xFF0C, 0x5E76, 0x5C06, 0x5176, 0x91CD]
      @ [0x5199, 0x4E3A, 0x4E00, 0x6BB5, 0x7B80, 0x6D01, 0x3001, 0x4E13, 0x4E1A, 0x3001]
      @ [0x7ED3, 0x679C, 0x5BFC, 0x5411, 0x7684, 0x76EE, 0x6807, 0x9648, 0x8FF0, 0xFF08]
      @ [0x5373]
      @ ascii '' refinedGoal''
      @ [0xFF09, 0x3002]
      @ ascii ''\<newline>''
      @ ascii ''    2. **''
      @ [0x65F6, 0x95F4, 0x611F, 0x77E5]
      @ ascii ''**''
      @ [0xFF1A, 0x6839, 0x636E, 0x4ECA, 0x5929, 0x662F]
      @ ascii '' ''\<close>

definition prompt_2 :: jsstring where
  \<open>prompt_2 =
      [0xFF0C]
      @ ascii ''**''
      @ [0x53EA, 0x751F, 0x6210, 0x4ECE, 0x4ECA, 0x5929, 0x5F00, 0x59CB, 0x5230, 0x672C]
      @ [0x5468, 0x65E5]
      @ ascii ''**''
      @ [0x7684, 0x65E5, 0x7A0B, 0x8868, 0x3002]
      @ ascii ''\<newline>''
      @ ascii ''       - ''
      @ [0x7EDD, 0x5BF9, 0x4E0D, 0x8981, 0x751F, 0x6210, 0x4ECA, 0x5929, 0x4E4B, 0x524D]
      @ [0x7684, 0x65E5, 0x671F, 0x7684, 0x8BA1, 0x5212, 0x3002]
      @ ascii ''\<newline>''
      @ ascii ''       - ''
      @ [0x5982, 0x679C, 0x4ECA, 0x5929, 0x662F, 0x5468, 0x65E5, 0xFF0C, 0x53EA, 0x751F]
      @ [0x6210, 0x4ECA, 0x5929, 0x7684, 0x8BA1, 0x5212, 0x3002]
      @ ascii ''\<newline>''
      @ ascii ''    3. **''
      @ [0x5236, 0x5B9A, 0x8BA1, 0x5212]
      @ ascii ''**''
      @ [0xFF1A, 0x4E3A, 0x5269, 0x4F59, 0x7684, 0x6BCF, 0x4E00, 0x5929, 0x5236, 0x5B9A]
      @ [0x53EF, 0x64CD, 0x4F5C, 0x7684, 0x6E05, 0x5355, 0x4EFB, 0x52A1, 0x3002]
      @ ascii ''\<newline>''
      @ ascii ''    4. **''
      @ [0x521B, 0x610F, 0x7075, 0x611F]
      @ ascii ''**''
      @ [0xFF1A, 0x4E3A, 0x6BCF, 0x4E00, 0x5929, 0x751F, 0x6210]
      @ ascii ''1-2''
      @ [0x4E2A, 0x5177, 0x4F53, 0x7684, 0x3001, 0x5BCC, 0x6709, 0x521B, 0x610F, 0x7684]
      @ [0x9009, 0x9898, 0x7075, 0x611F, 0x3002]
      @ ascii ''\<newline>''
      @ ascii ''    \<newline>''
      @ ascii ''    ''
      @ [0x7528, 0x6237, 0x7684, 0x8F93, 0x5165, 0xFF1A]
      @ ascii ''"''\<close>

definition prompt_3 :: jsstring where
  \<open>prompt_3 =
      ascii ''"\<newline>''
      @ ascii ''    \<newline>''
      @ ascii ''    ''
      @ [0x8BF7, 0x52A1, 0x5FC5, 0x4F7F, 0x7528, 0x7B80, 0x4F53, 0x4E2D, 0x6587, 0x56DE]
      @ [0x590D, 0x3002]
      @ ascii ''\<newline>''
      @ ascii ''  ''\<close>

text \<open>The fixed text that follows the goal text, up to the next character outside ASCII.\<close>

definition goal_closing :: jsstring where
  \<open>goal_closing = ascii ''"\<newline>    \<newline>    ''\<close>

definition format_heading :: jsstring where
  \<open>format_heading =
      ascii ''\<newline>''
      @ ascii ''    \<newline>''
      @ ascii ''\<newline>''
      @ ascii ''\<newline>''
      @ ascii ''    **OUTPUT FORMAT REQUIREMENTS:**\<newline>''
      @ ascii ''    You must output a single valid JSON object strictly following this structure:\<newline>''
      @ ascii ''    ''\<close>

definition format_shape :: jsstring where
  \<open>format_shape =
      ascii ''{\<newline>''
      @ ascii ''      "refinedGoal": "string summary of remaining goals",\<newline>''
      @ ascii ''      "schedule": [\<newline>''
      @ ascii ''        {\<newline>''
      @ ascii ''          "dayName": "string (e.g. ''
      @ [0x5468, 0x4E94]
      @ ascii '')",\<newline>''
      @ ascii ''          "tasks": ["string", "string"],\<newline>''
      @ ascii ''          "contentIdeas": ["string", "string"]\<newline>''
      @ ascii ''        }\<newline>''
      @ ascii ''      ]\<newline>''
      @ ascii ''    }''\<close>

definition format_instruction :: jsstring where
  \<open>format_instruction =
      ascii ''Do not add Markdown formatting (like ```json). Just the raw JSON string.''\<close>

definition prompt_format :: jsstring where
  \<open>prompt_format =
      format_heading @ format_shape @ ascii ''\<newline>''
      @ ascii ''    ''
      @ format_instruction @ ascii ''\<newline>''
      @ ascii ''    ''\<close>

definition buildSystemAndUserPrompt :: "jsstring \<Rightarrow> jsstring \<Rightarrow> bool \<Rightarrow> jsstring \<times> jsstring" where
  "buildSystemAndUserPrompt dateStr goalText isOpenAI =
     (let systemInstruction =
            systemInstruction_1 @ dateStr @ systemInstruction_2
            @ (if isOpenAI then systemInstruction_important else []) @ systemInstruction_3;
          prompt = prompt_1 @ dateStr @ prompt_2 @ goalText @ prompt_3;
          prompt = (if isOpenAI then prompt @ prompt_format else prompt)
      in (systemInstruction, prompt))"


section \<open>Adapters\<close>

text \<open>
  An asynchronous operation is modelled by the network calls it issued, in order, and by
  what its promise settles to: \<open>Inl\<close> a rejection, \<open>Inr\<close> the value.
\<close>

type_synonym 'a promise = "call list \<times> (js_error + 'a)"

subsection \<open>\<^verbatim>\<open>generateWithGemini\<close>\<close>

text \<open>\<^verbatim>\<open>settings.apiKey || process.env.API_KEY\<close>: a string or \<^verbatim>\<open>undefined\<close>.\<close>

definition gemini_apiKeyToUse :: "world \<Rightarrow> AppSettings \<Rightarrow> jsstring option" where
  "gemini_apiKeyToUse w settings =
     (if truthy (apiKey settings) then Some (apiKey settings) else env_API_KEY w)"

definition geminiRequest :: "jsstring \<Rightarrow> jsstring \<Rightarrow> AppSettings \<Rightarrow> jsstring \<Rightarrow> gemini_request" where
  "geminiRequest apiKeyToUse goalText settings dateStr =
     (let (systemInstruction, prompt) = buildSystemAndUserPrompt dateStr goalText False
      in \<lparr> sdk_apiKey = apiKeyToUse,
           sdk_model = model settings,
           sdk_contents = prompt,
           sdk_config = Some \<lparr> responseMimeType = ascii ''application/json'',
                               responseSchema = geminiResponseSchema,
                               systemInstruction = systemInstruction \<rparr> \<rparr>)"

definition generateWithGemini :: "world \<Rightarrow> jsstring \<Rightarrow> AppSettings \<Rightarrow> jsstring \<Rightarrow> json promise" where
  "generateWithGemini w goalText settings dateStr =
     (case gemini_apiKeyToUse w settings of
        None \<Rightarrow> ([], Inl (Error (ascii ''Gemini API Key is missing.'')))
      | Some apiKeyToUse \<Rightarrow>
          if \<not> truthy apiKeyToUse then ([], Inl (Error (ascii ''Gemini API Key is missing.'')))
          else
            let req = geminiRequest apiKeyToUse goalText settings dateStr
            in ([GenerateContent req],
                case generateContent w req of
                  Inl e \<Rightarrow> Inl e
                | Inr text \<Rightarrow>
                    (case text of
                       None \<Rightarrow> Inl (Error (ascii ''No response from Gemini''))
                     | Some t \<Rightarrow>
                         if \<not> truthy t then Inl (Error (ascii ''No response from Gemini''))
                         else JSON_parse_throw t)))"

subsection \<open>\<^verbatim>\<open>generateWithOpenAI\<close>\<close>

definition chatPayload :: "jsstring \<Rightarrow> jsstring \<Rightarrow> jsstring \<Rightarrow> json" where
  "chatPayload mdl instruction prompt =
     JObject
       [(ascii ''model'', JString mdl),
        (ascii ''messages'',
           JArray
             [JObject [(ascii ''role'', JString (ascii ''system'')),
                       (ascii ''content'', JString instruction)],
              JObject [(ascii ''role'', JString (ascii ''user'')),
                       (ascii ''content'', JString prompt)]]),
        (ascii ''response_format'', JObject [(ascii ''type'', JString (ascii ''json_object''))]),
        (ascii ''temperature'', JNumber (ascii ''0.7''))]"

definition chatRequest :: "jsstring \<Rightarrow> AppSettings \<Rightarrow> jsstring \<Rightarrow> request" where
  "chatRequest goalText settings dateStr =
     (let endpoint = generate_baseUrl settings @ ascii ''/chat/completions'';
          (systemInstruction, prompt) = buildSystemAndUserPrompt dateStr goalText True
      in \<lparr> req_method = ascii ''POST'',
           req_url = endpoint,
           req_headers =
             [(ascii ''Content-Type'', ascii ''application/json''),
              (ascii ''Authorization'', ascii ''Bearer '' @ apiKey settings)],
           req_body = Some (chatPayload (model settings) systemInstruction prompt) \<rparr>)"

text \<open>\<^verbatim>\<open>data.choices?.[0]?.message?.content\<close>; reading \<^verbatim>\<open>choices\<close> of \<^verbatim>\<open>null\<close> throws.\<close>

definition messageContent :: "json \<Rightarrow> js_error + json option" where
  "messageContent data =
     (if data = JNull then Inl TypeError
      else Inr (optMember (optMember (optIndex0 (member data (ascii ''choices'')))
                  (ascii ''message'')) (ascii ''content'')))"

text \<open>
  The cleaning and parsing of the message content: \<^verbatim>\<open>content.trim()\<close>, the two
  anchored replacements in the branch the prefix selects, then \<^verbatim>\<open>JSON.parse\<close>.
\<close>

definition stripFence :: "jsstring \<Rightarrow> jsstring" where
  "stripFence content =
     (let jsonStr = trim content
      in if startsWith jsonStr (ascii ''```json'')
         then replaceAtEnd (ascii ''```'') (replaceAtStart (ascii ''```json'') jsonStr)
         else if startsWith jsonStr (ascii ''```'')
         then replaceAtEnd (ascii ''```'') (replaceAtStart (ascii ''```'') jsonStr)
         else jsonStr)"

definition parseContent :: "json option \<Rightarrow> js_error + json" where
  "parseContent content =
     (if falsy content then Inl (Error (ascii ''No content returned from API.''))
      else case content of
             Some (JString c) \<Rightarrow> JSON_parse_throw (stripFence c)
           | _ \<Rightarrow> Inl TypeError)"

definition chatResponse :: "response \<Rightarrow> js_error + json" where
  "chatResponse r =
     (if \<not> ok r
      then Inl (Error (ascii ''API Request failed: '' @ digits (status r) @ ascii '' ''
                        @ statusText r @ ascii '' - '' @ responseText r))
      else case JSON_parse_throw (responseText r) of
             Inl e \<Rightarrow> Inl e
           | Inr data \<Rightarrow>
               (case messageContent data of
                  Inl e \<Rightarrow> Inl e
                | Inr content \<Rightarrow> parseContent content))"

definition generateWithOpenAI :: "world \<Rightarrow> jsstring \<Rightarrow> AppSettings \<Rightarrow> jsstring \<Rightarrow> json promise" where
  "generateWithOpenAI w goalText settings dateStr =
     (let apiKeyToUse = apiKey settings
      in if \<not> truthy apiKeyToUse
         then ([], Inl (Error (ascii ''API Key (sk-...) is required for this provider.'')))
         else
           let req = chatRequest goalText settings dateStr
           in ([Fetch req],
               case fetch w req of
                 Inl e \<Rightarrow> Inl e
               | Inr r \<Rightarrow> chatResponse r))"

subsection \<open>\<^verbatim>\<open>generateWeeklyPlan\<close>\<close>

definition generateWeeklyPlan :: "world \<Rightarrow> jsstring \<Rightarrow> AppSettings \<Rightarrow> json promise" where
  "generateWeeklyPlan w goalText settings =
     (case formatDate w (timezone settings) of
        None \<Rightarrow> ([], Inl RangeError)
      | Some dateStr \<Rightarrow>
          if provider settings = ascii ''openai''
          then generateWithOpenAI w goalText settings dateStr
          else generateWithGemini w goalText settings dateStr)"

section \<open>Connection validation\<close>

subsection \<open>\<^verbatim>\<open>validateGeminiConnection\<close>\<close>

definition pingRequest :: "jsstring \<Rightarrow> gemini_request" where
  "pingRequest k =
     \<lparr> sdk_apiKey = k, sdk_model = ascii ''gemini-2.5-flash'', sdk_contents = ascii ''Ping'',
       sdk_config = None \<rparr>"

definition validateGeminiConnection :: "world \<Rightarrow> jsstring \<Rightarrow> bool promise" where
  "validateGeminiConnection w k =
     (if \<not> truthy k then ([], Inl (Error ([0x8BF7, 0x8F93, 0x5165] @ ascii '' API Key'')))
      else ([GenerateContent (pingRequest k)],
            case generateContent w (pingRequest k) of
              Inl e \<Rightarrow> Inl (Error (orElse (Some (message w e)) [0x9A8C, 0x8BC1, 0x5931, 0x8D25]))
            | Inr text \<Rightarrow> Inr True))"

subsection \<open>The settings dialogue\<close>

datatype connection = Idle | Success | Failure

text \<open>An entry of the model list, \<^verbatim>\<open>{ value: m.id, label: m.id }\<close>.\<close>

record ModelOption =
  optValue :: "json option"
  optLabel :: "json option"

text \<open>The state the two handlers write, through its four setters.\<close>

record ModalState =
  isLoading :: bool
  fetchedModels :: "ModelOption list"
  connectionStatus :: connection
  statusMessage :: jsstring

text \<open>The id an entry carries, when its value is a string.\<close>

definition optionId :: "ModelOption \<Rightarrow> jsstring" where
  "optionId e = (case optValue e of Some (JString x) \<Rightarrow> x | _ \<Rightarrow> [])"

definition toModelOption :: "json \<Rightarrow> js_error + ModelOption" where
  "toModelOption m =
     (if m = JNull then Inl TypeError
      else Inr \<lparr> optValue = member m (ascii ''id''), optLabel = member m (ascii ''id'') \<rparr>)"

fun mapModels :: "json list \<Rightarrow> js_error + ModelOption list" where
  "mapModels [] = Inr []"
| "mapModels (m # ms) =
     (case toModelOption m of
        Inl e \<Rightarrow> Inl e
      | Inr x \<Rightarrow> (case mapModels ms of Inl e \<Rightarrow> Inl e | Inr xs \<Rightarrow> Inr (x # xs)))"

text \<open>
  The comparator \<^verbatim>\<open>(a, b) => a.value.localeCompare(b.value)\<close>: it throws unless
  \<^verbatim>\<open>a.value\<close> is a string, and converts \<^verbatim>\<open>b.value\<close> to one.
\<close>

definition compareModels :: "world \<Rightarrow> ModelOption \<Rightarrow> ModelOption \<Rightarrow> js_error + int" where
  "compareModels w a b =
     (case optValue a of
        Some (JString x) \<Rightarrow>
          Inr (localeCompare w x
                 (case optValue b of Some (JString y) \<Rightarrow> y | other \<Rightarrow> toString w other))
      | _ \<Rightarrow> Inl TypeError)"

text \<open>
  \<^verbatim>\<open>Array.prototype.sort\<close> is stable. The model inserts each element, left to right,
  before the first element it is strictly smaller than. Which pairs an engine compares
  is its own choice, which shows only when the comparator throws or is inconsistent.
\<close>

fun insertModel :: "world \<Rightarrow> ModelOption \<Rightarrow> ModelOption list \<Rightarrow> js_error + ModelOption list" where
  "insertModel w x [] = Inr [x]"
| "insertModel w x (y # ys) =
     (case compareModels w x y of
        Inl e \<Rightarrow> Inl e
      | Inr c \<Rightarrow>
          if c < 0 then Inr (x # y # ys)
          else (case insertModel w x ys of Inl e \<Rightarrow> Inl e | Inr r \<Rightarrow> Inr (y # r)))"

fun sortModels :: "world \<Rightarrow> ModelOption list \<Rightarrow> ModelOption list \<Rightarrow> js_error + ModelOption list" where
  "sortModels w [] acc = Inr acc"
| "sortModels w (x # xs) acc =
     (case insertModel w x acc of Inl e \<Rightarrow> Inl e | Inr acc' \<Rightarrow> sortModels w xs acc')"

definition listModels :: "world \<Rightarrow> json \<Rightarrow> js_error + ModelOption list" where
  "listModels w data =
     (case (if falsy (Some data) then None else member data (ascii ''data'')) of
        Some (JArray ms) \<Rightarrow>
          (case mapModels ms of
             Inl e \<Rightarrow> Inl e
           | Inr unsorted \<Rightarrow>
               (case sortModels w unsorted [] of
                  Inl e \<Rightarrow> Inl e
                | Inr modelsFromApi \<Rightarrow>
                    if length modelsFromApi = 0
                    then Inl (Error [0x672A, 0x627E, 0x5230, 0x6A21, 0x578B])
                    else Inr modelsFromApi))
      | _ \<Rightarrow> Inl (Error [0x683C, 0x5F0F, 0x9519, 0x8BEF]))"

definition modelsRequest :: "AppSettings \<Rightarrow> request" where
  "modelsRequest formData =
     \<lparr> req_method = ascii ''GET'',
       req_url = verify_baseUrl formData @ ascii ''/models'',
       req_headers =
         [(ascii ''Authorization'', ascii ''Bearer '' @ apiKey formData),
          (ascii ''Content-Type'', ascii ''application/json'')],
       req_body = None \<rparr>"

definition modelsResponse :: "world \<Rightarrow> response \<Rightarrow> js_error + ModelOption list" where
  "modelsResponse w r =
     (if \<not> ok r then Inl (Error (ascii ''HTTP '' @ digits (status r)))
      else case JSON_parse_throw (responseText r) of
             Inl e \<Rightarrow> Inl e
           | Inr data \<Rightarrow> listModels w data)"

definition handleVerifyOpenAI :: "world \<Rightarrow> AppSettings \<Rightarrow> ModalState \<Rightarrow> call list \<times> ModalState" where
  "handleVerifyOpenAI w formData st =
     (if \<not> truthy (apiKey formData)
      then ([], st\<lparr> connectionStatus := Failure,
                    statusMessage := [0x8BF7, 0x5148, 0x8F93, 0x5165] @ ascii '' API Key'' \<rparr>)
      else
        let st1 = st\<lparr> isLoading := True, connectionStatus := Idle,
                       statusMessage := [0x6B63, 0x5728, 0x8FDE, 0x63A5] @ ascii ''...'' \<rparr>;
            req = modelsRequest formData;
            outcome = (case fetch w req of Inl e \<Rightarrow> Inl e | Inr r \<Rightarrow> modelsResponse w r);
            st2 = (case outcome of
                     Inr modelsFromApi \<Rightarrow>
                       st1\<lparr> fetchedModels := modelsFromApi, connectionStatus := Success,
                            statusMessage :=
                              [0x9A8C, 0x8BC1, 0x6210, 0x529F, 0xFF0C, 0x83B7, 0x53D6, 0x5230]
                              @ ascii '' '' @ digits (length modelsFromApi) @ ascii '' ''
                              @ [0x4E2A, 0x6A21, 0x578B] \<rparr>
                   | Inl error \<Rightarrow>
                       st1\<lparr> connectionStatus := Failure,
                            statusMessage :=
                              orElse (Some (message w error)) [0x8FDE, 0x63A5, 0x5931, 0x8D25] \<rparr>)
        in ([Fetch req], st2\<lparr> isLoading := False \<rparr>))"

definition handleVerifyGemini :: "world \<Rightarrow> AppSettings \<Rightarrow> ModalState \<Rightarrow> call list \<times> ModalState" where
  "handleVerifyGemini w formData st =
     (if \<not> truthy (apiKey formData)
      then ([], st\<lparr> connectionStatus := Failure,
                    statusMessage := [0x8BF7, 0x5148, 0x8F93, 0x5165] @ ascii '' API Key'' \<rparr>)
      else
        let st1 = st\<lparr> isLoading := True, connectionStatus := Idle,
                       statusMessage := [0x6B63, 0x5728, 0x9A8C, 0x8BC1] @ ascii '' Key...'' \<rparr>;
            (calls, outcome) = validateGeminiConnection w (apiKey formData);
            st2 = (case outcome of
                     Inr valid \<Rightarrow>
                       st1\<lparr> connectionStatus := Success,
                            statusMessage :=
                              [0x9A8C, 0x8BC1, 0x6210, 0x529F, 0xFF01] @ ascii ''Key ''
                              @ [0x6709, 0x6548] \<rparr>
                   | Inl error \<Rightarrow>
                       st1\<lparr> connectionStatus := Failure,
                            statusMessage :=
                              [0x9A8C, 0x8BC1, 0x5931, 0x8D25, 0xFF0C, 0x8BF7, 0x68C0, 0x67E5]
                              @ ascii '' Key'' \<rparr>)
        in (calls, st2\<lparr> isLoading := False \<rparr>))"


section \<open>A test platform\<close>

text \<open>
  Concrete inputs for the examples: a platform whose \<^verbatim>\<open>fetch\<close> answers every request
  with the response \<open>r\<close>, whose SDK call returns the text \<open>t\<close>, which knows the time
  zone \<^verbatim>\<open>UTC\<close> only, and which compares strings code unit by code unit.
\<close>

fun compareUnits :: "jsstring \<Rightarrow> jsstring \<Rightarrow> int" where
  "compareUnits [] [] = 0"
| "compareUnits [] (y # ys) = - 1"
| "compareUnits (x # xs) [] = 1"
| "compareUnits (x # xs) (y # ys) =
     (if x < y then - 1 else if y < x then 1 else compareUnits xs ys)"

definition testWorld :: "response \<Rightarrow> jsstring option \<Rightarrow> jsstring option \<Rightarrow> world" where
  "testWorld r t env =
     \<lparr> fetch = (\<lambda>req. Inr r),
       generateContent = (\<lambda>req. Inr t),
       formatDate = (\<lambda>tz. if tz = ascii ''UTC''
                           then Some (ascii ''2026'' @ [0x5E74] @ ascii ''1'' @ [0x6708] @ ascii ''7''
                                      @ [0x65E5, 0x661F, 0x671F, 0x4E09])
                           else None),
       env_API_KEY = env,
       localeCompare = compareUnits,
       toString = (\<lambda>x. ascii ''undefined''),
       engineMessage = (\<lambda>e. ascii ''failed'') \<rparr>"

text \<open>The same platform with both network operations rejecting with \<open>e\<close>.\<close>

definition rejectingWorld :: "js_error \<Rightarrow> world" where
  "rejectingWorld e =
     (testWorld \<lparr> status = 200, statusText = [], responseText = [] \<rparr> None None)
       \<lparr> fetch := (\<lambda>req. Inl e), generateContent := (\<lambda>req. Inl e) \<rparr>"

text \<open>
  A comparator that orders ASCII letters as the collation of browsers does: without
  regard to case first, and lower case before upper case among strings that differ in
  case only.
\<close>

definition foldCase :: "16 word \<Rightarrow> 16 word" where
  "foldCase c = (if 0x41 \<le> c \<and> c \<le> 0x5A then c + 0x20 else c)"

definition compareCollated :: "jsstring \<Rightarrow> jsstring \<Rightarrow> int" where
  "compareCollated x y =
     (let c = compareUnits (map foldCase x) (map foldCase y)
      in if c \<noteq> 0 then c else compareUnits y x)"

definition collatingWorld :: "response \<Rightarrow> world" where
  "collatingWorld r = (testWorld r None None) \<lparr> localeCompare := compareCollated \<rparr>"

definition testResponse :: "nat \<Rightarrow> jsstring \<Rightarrow> response" where
  "testResponse code text = \<lparr> status = code, statusText = [], responseText = text \<rparr>"

definition testSettings :: "jsstring \<Rightarrow> jsstring \<Rightarrow> jsstring option \<Rightarrow> AppSettings" where
  "testSettings p k b =
     \<lparr> provider = p, apiKey = k, model = ascii ''some-model'', timezone = ascii ''UTC'',
       baseUrl = b \<rparr>"

definition testState :: ModalState where
  "testState =
     \<lparr> isLoading = False, fetchedModels = [], connectionStatus = Idle, statusMessage = [] \<rparr>"


section \<open>String lemmas\<close>

lemma startsWith_prefix: "startsWith s p = prefix p s"
  unfolding startsWith_def prefix_def by (metis append_eq_conv_conj append_take_drop_id)

lemma endsWith_suffix: "endsWith s p = suffix p s"
  unfolding endsWith_def suffix_def
  by (metis append_eq_conv_conj append_take_drop_id diff_add_inverse2 le_add2 length_append)

lemma includes_str_sublist: "includes_str s p = sublist p s"
  by (induction s) (auto simp: startsWith_prefix sublist_Cons_right)

lemma includes_str_middle: "includes_str (a @ p @ b) p"
  by (simp add: includes_str_sublist)

lemma slice_drop_last: "s \<noteq> [] \<Longrightarrow> slice s 0 (- 1) = butlast s"
  by (simp add: slice_def slice_index_def Let_def butlast_conv_take nat_diff_distrib')

lemma endsWith_slash: "endsWith b (ascii ''/'') = (b \<noteq> [] \<and> last b = 0x2F)"
  by (cases b rule: rev_cases) (simp_all add: endsWith_def ascii_def)


section \<open>Base URL normalisation\<close>

text \<open>
  C6. For every settings object, the adapter and the models probe compute the same
  effective base URL, and the request URLs are built from it. It is the canonical
  OpenAI endpoint when \<^verbatim>\<open>baseUrl\<close> is unset or empty; a configured URL ending in a
  slash loses exactly that one slash (so of two trailing slashes the first stays); any
  other configured URL is used as it is.
\<close>

theorem baseUrl_normalised:
  "generate_baseUrl s = verify_baseUrl s
   \<and> req_url (chatRequest g s d) = generate_baseUrl s @ ascii ''/chat/completions''
   \<and> req_url (modelsRequest s) = verify_baseUrl s @ ascii ''/models''
   \<and> (baseUrl s = None \<or> baseUrl s = Some [] \<longrightarrow>
        generate_baseUrl s = ascii ''https://api.openai.com/v1'')
   \<and> (\<forall>b. baseUrl s = Some (b @ ascii ''/'') \<longrightarrow> generate_baseUrl s = b)
   \<and> (\<forall>b. baseUrl s = Some b \<and> b \<noteq> [] \<and> \<not> endsWith b (ascii ''/'') \<longrightarrow> generate_baseUrl s = b)"
proof -
  have default: "\<not> endsWith (ascii ''https://api.openai.com/v1'') (ascii ''/'')"
    by (simp add: endsWith_slash) (simp add: ascii_def)
  have "generate_baseUrl s = verify_baseUrl s"
    by (simp add: generate_baseUrl_def verify_baseUrl_def)
  moreover have "req_url (chatRequest g s d) = generate_baseUrl s @ ascii ''/chat/completions''"
    by (simp add: chatRequest_def Let_def split: prod.splits)
  moreover have "req_url (modelsRequest s) = verify_baseUrl s @ ascii ''/models''"
    by (simp add: modelsRequest_def)
  moreover have "baseUrl s = None \<or> baseUrl s = Some [] \<longrightarrow>
        generate_baseUrl s = ascii ''https://api.openai.com/v1''"
    using default by (auto simp: generate_baseUrl_def orElse_def truthy_def Let_def)
  moreover have "\<forall>b. baseUrl s = Some (b @ ascii ''/'') \<longrightarrow> generate_baseUrl s = b"
  proof (intro allI impI)
    fix b assume b: "baseUrl s = Some (b @ ascii ''/'')"
    have "endsWith (b @ ascii ''/'') (ascii ''/'')" by (simp add: endsWith_suffix suffix_def)
    moreover have "slice (b @ ascii ''/'') 0 (- 1) = b"
      by (subst slice_drop_last) (simp_all add: ascii_def butlast_append)
    moreover have "b @ ascii ''/'' \<noteq> []" by (simp add: ascii_def)
    ultimately show "generate_baseUrl s = b"
      using b by (simp add: generate_baseUrl_def orElse_def truthy_def Let_def)
  qed
  moreover have "\<forall>b. baseUrl s = Some b \<and> b \<noteq> [] \<and> \<not> endsWith b (ascii ''/'') \<longrightarrow> generate_baseUrl s = b"
    by (simp add: generate_baseUrl_def orElse_def truthy_def Let_def)
  ultimately show ?thesis by blast
qed

theorem baseUrl_normalised_witness:
  "generate_baseUrl (testSettings (ascii ''openai'') (ascii ''sk-1'') (Some (ascii ''http://host/v1//'')))
     = ascii ''http://host/v1/''
   \<and> verify_baseUrl (testSettings (ascii ''openai'') (ascii ''sk-1'') (Some (ascii ''http://host/v1//'')))
     = ascii ''http://host/v1/''
   \<and> generate_baseUrl (testSettings (ascii ''openai'') (ascii ''sk-1'') (Some []))
     = ascii ''https://api.openai.com/v1''
   \<and> generate_baseUrl (testSettings (ascii ''openai'') (ascii ''sk-1'') (Some (ascii ''http://host/v1'')))
     = ascii ''http://host/v1''"
proof -
  let ?s = "testSettings (ascii ''openai'') (ascii ''sk-1'') (Some (ascii ''http://host/v1//''))"
  let ?e = "testSettings (ascii ''openai'') (ascii ''sk-1'') (Some [])"
  let ?p = "testSettings (ascii ''openai'') (ascii ''sk-1'') (Some (ascii ''http://host/v1''))"
  have 1: "baseUrl ?s = Some (ascii ''http://host/v1/'' @ ascii ''/'')"
    by (simp add: testSettings_def ascii_def)
  have 2: "baseUrl ?e = None \<or> baseUrl ?e = Some []"
    by (simp add: testSettings_def)
  have 3: "baseUrl ?p = Some (ascii ''http://host/v1'') \<and> ascii ''http://host/v1'' \<noteq> []
             \<and> \<not> endsWith (ascii ''http://host/v1'') (ascii ''/'')"
    by (simp add: testSettings_def endsWith_def ascii_def)
  have a: "generate_baseUrl ?s = ascii ''http://host/v1/''"
    using baseUrl_normalised [of ?s] 1 by blast
  have b: "verify_baseUrl ?s = ascii ''http://host/v1/''"
    using baseUrl_normalised [of ?s] a by simp
  have c: "generate_baseUrl ?e = ascii ''https://api.openai.com/v1''"
    using baseUrl_normalised [of ?e] 2 by blast
  have d: "generate_baseUrl ?p = ascii ''http://host/v1''"
    using baseUrl_normalised [of ?p] 3 by blast
  show ?thesis using a b c d by simp
qed



section \<open>Dispatch\<close>

lemma ascii_nonempty: "s \<noteq> [] \<Longrightarrow> ascii s \<noteq> []"
  by (simp add: ascii_def)

lemma testWorld_UTC:
  "formatDate (testWorld r t env) (ascii ''UTC'')
     = Some (ascii ''2026'' @ [0x5E74] @ ascii ''1'' @ [0x6708] @ ascii ''7'' @ [0x65E5, 0x661F, 0x671F, 0x4E09])"
  by (simp add: testWorld_def)

text \<open>
  C10. Once the date string is computed, \<^verbatim>\<open>generateWeeklyPlan\<close> calls the
  OpenAI-compatible adapter exactly when the provider is the string \<^verbatim>\<open>openai\<close>; every
  other provider value, declared or not, goes to the Gemini adapter.
\<close>

theorem dispatch_by_provider:
  "formatDate w (timezone s) = Some d \<Longrightarrow>
     (provider s = ascii ''openai'' \<longrightarrow> generateWeeklyPlan w g s = generateWithOpenAI w g s d)
   \<and> (provider s \<noteq> ascii ''openai'' \<longrightarrow> generateWeeklyPlan w g s = generateWithGemini w g s d)"
  by (simp add: generateWeeklyPlan_def)

theorem dispatch_by_provider_witness:
  "generateWeeklyPlan (testWorld (testResponse 200 []) (Some (ascii ''{}'')) None) (ascii ''goal'')
       (testSettings (ascii ''OpenAI'') (ascii ''key'') None)
     = generateWithGemini (testWorld (testResponse 200 []) (Some (ascii ''{}'')) None) (ascii ''goal'')
         (testSettings (ascii ''OpenAI'') (ascii ''key'') None)
         (ascii ''2026'' @ [0x5E74] @ ascii ''1'' @ [0x6708] @ ascii ''7'' @ [0x65E5, 0x661F, 0x671F, 0x4E09])
   \<and> generateWeeklyPlan (testWorld (testResponse 200 []) (Some (ascii ''{}'')) None) (ascii ''goal'')
       (testSettings (ascii ''openai'') (ascii ''key'') None)
     = generateWithOpenAI (testWorld (testResponse 200 []) (Some (ascii ''{}'')) None) (ascii ''goal'')
         (testSettings (ascii ''openai'') (ascii ''key'') None)
         (ascii ''2026'' @ [0x5E74] @ ascii ''1'' @ [0x6708] @ ascii ''7'' @ [0x65E5, 0x661F, 0x671F, 0x4E09])"
proof -
  let ?w = "testWorld (testResponse 200 []) (Some (ascii ''{}'')) None"
  let ?d = "ascii ''2026'' @ [0x5E74] @ ascii ''1'' @ [0x6708] @ ascii ''7'' @ [0x65E5, 0x661F, 0x671F, 0x4E09]"
  let ?s = "testSettings (ascii ''OpenAI'') (ascii ''key'') None"
  let ?o = "testSettings (ascii ''openai'') (ascii ''key'') None"
  have tz: "formatDate ?w (timezone ?s) = Some ?d" "formatDate ?w (timezone ?o) = Some ?d"
    by (simp_all add: testSettings_def testWorld_UTC)
  have p: "provider ?s \<noteq> ascii ''openai''" "provider ?o = ascii ''openai''"
    by (simp_all add: testSettings_def ascii_def)
  show ?thesis
    using dispatch_by_provider [OF tz(1), of "ascii ''goal''"]
          dispatch_by_provider [OF tz(2), of "ascii ''goal''"] p
    by blast
qed

text \<open>
  With an accepted time zone neither adapter rejects with \<^verbatim>\<open>RangeError\<close> before issuing
  a call.
\<close>

lemma generateWithOpenAI_not_silent: "generateWithOpenAI w g s d \<noteq> ([], Inl RangeError)"
  by (simp add: generateWithOpenAI_def Let_def)

lemma generateWithGemini_not_silent: "generateWithGemini w g s d \<noteq> ([], Inl RangeError)"
  by (simp add: generateWithGemini_def Let_def split: option.splits)

text \<open>
  C3, as stated, fails: the dispatcher has no error type of its own for a rejected time
  zone. It lets the platform's \<^verbatim>\<open>RangeError\<close> through, and a call with an accepted zone
  fails with the very same error when the network operation rejects with it.
\<close>

theorem invalid_timezone_counterexample:
  "formatDate (rejectingWorld RangeError) (ascii ''Mars/Phobos'') = None
   \<and> snd (generateWeeklyPlan (rejectingWorld RangeError) (ascii ''goal'')
            ((testSettings (ascii ''openai'') (ascii ''sk-1'') None) \<lparr> timezone := ascii ''Mars/Phobos'' \<rparr>))
       = Inl RangeError
   \<and> formatDate (rejectingWorld RangeError) (ascii ''UTC'') \<noteq> None
   \<and> snd (generateWeeklyPlan (rejectingWorld RangeError) (ascii ''goal'')
            (testSettings (ascii ''openai'') (ascii ''sk-1'') None))
       = Inl RangeError"
proof -
  have k: "ascii ''sk-1'' \<noteq> []" "ascii ''Mars/Phobos'' \<noteq> ascii ''UTC''" by (simp_all add: ascii_def)
  show ?thesis
    using k
    by (simp add: generateWeeklyPlan_def rejectingWorld_def testWorld_def testSettings_def
        generateWithOpenAI_def truthy_def Let_def)
qed

text \<open>
  C3, amended. \<^verbatim>\<open>generateWeeklyPlan\<close> neither catches nor translates the failure of a
  rejected time zone: its promise is rejected with the platform's \<^verbatim>\<open>RangeError\<close> and
  no network call has been issued, and this outcome occurs for a rejected zone only.
  For a rejected zone the outcome is the same whatever the goal, the provider, the API
  key and the behaviour of the network; no fallback zone is substituted.
\<close>

theorem invalid_timezone:
  "(formatDate w (timezone s) = None \<longleftrightarrow> generateWeeklyPlan w g s = ([], Inl RangeError))
   \<and> (formatDate w (timezone s) = None \<longrightarrow>
        generateWeeklyPlan w g s = generateWeeklyPlan w g' (s \<lparr> provider := p, apiKey := k \<rparr>)
        \<and> generateWeeklyPlan w g s
            = generateWeeklyPlan (w \<lparr> fetch := f, generateContent := c, env_API_KEY := e \<rparr>) g s)"
  by (auto simp: generateWeeklyPlan_def generateWithOpenAI_not_silent generateWithGemini_not_silent
      split: option.splits)

theorem invalid_timezone_witness:
  "generateWeeklyPlan (testWorld (testResponse 200 []) None None) (ascii ''goal'')
      ((testSettings (ascii ''gemini'') [] None) \<lparr> timezone := ascii ''Mars/Phobos'' \<rparr>)
     = ([], Inl RangeError)"
proof -
  have "formatDate (testWorld (testResponse 200 []) None None)
          (timezone ((testSettings (ascii ''gemini'') [] None) \<lparr> timezone := ascii ''Mars/Phobos'' \<rparr>)) = None"
    by (simp add: testWorld_def testSettings_def ascii_def)
  then show ?thesis
    using invalid_timezone
      [of "testWorld (testResponse 200 []) None None"
          "(testSettings (ascii ''gemini'') [] None) \<lparr> timezone := ascii ''Mars/Phobos'' \<rparr>"
          "ascii ''goal''"]
    by blast
qed

section \<open>Credentials\<close>

text \<open>
  C8. The Gemini adapter fails with its missing-key error, before any call, exactly
  when the configured key is empty and \<^verbatim>\<open>process.env.API_KEY\<close> is undefined or empty.
  Otherwise it issues one SDK call whose key is the configured key when that is
  non-empty, and the process-level key when it is not.
\<close>

theorem gemini_effective_key:
  "(generateWithGemini w g s d = ([], Inl (Error (ascii ''Gemini API Key is missing.'')))
      \<longleftrightarrow> apiKey s = [] \<and> (env_API_KEY w = None \<or> env_API_KEY w = Some []))
   \<and> (apiKey s \<noteq> [] \<longrightarrow>
        fst (generateWithGemini w g s d) = [GenerateContent (geminiRequest (apiKey s) g s d)])
   \<and> (\<forall>k. apiKey s = [] \<and> env_API_KEY w = Some k \<and> k \<noteq> [] \<longrightarrow>
        fst (generateWithGemini w g s d) = [GenerateContent (geminiRequest k g s d)])
   \<and> (\<forall>k. sdk_apiKey (geminiRequest k g s d) = k)"
  by (auto simp: generateWithGemini_def gemini_apiKeyToUse_def truthy_def geminiRequest_def Let_def
           split: option.splits prod.splits)

theorem gemini_effective_key_witness:
  "fst (generateWithGemini (testWorld (testResponse 200 []) (Some (ascii ''{}'')) (Some (ascii ''env-key'')))
          (ascii ''goal'') (testSettings (ascii ''gemini'') [] None) (ascii ''today''))
     = [GenerateContent (geminiRequest (ascii ''env-key'') (ascii ''goal'')
          (testSettings (ascii ''gemini'') [] None) (ascii ''today''))]
   \<and> fst (generateWithGemini (testWorld (testResponse 200 []) (Some (ascii ''{}'')) (Some (ascii ''env-key'')))
          (ascii ''goal'') (testSettings (ascii ''gemini'') (ascii ''own-key'') None) (ascii ''today''))
     = [GenerateContent (geminiRequest (ascii ''own-key'') (ascii ''goal'')
          (testSettings (ascii ''gemini'') (ascii ''own-key'') None) (ascii ''today''))]
   \<and> generateWithGemini (testWorld (testResponse 200 []) (Some (ascii ''{}'')) None)
          (ascii ''goal'') (testSettings (ascii ''gemini'') [] None) (ascii ''today'')
     = ([], Inl (Error (ascii ''Gemini API Key is missing.'')))"
proof -
  let ?w = "testWorld (testResponse 200 []) (Some (ascii ''{}'')) (Some (ascii ''env-key''))"
  let ?n = "testWorld (testResponse 200 []) (Some (ascii ''{}'')) None"
  let ?s = "testSettings (ascii ''gemini'') [] None"
  let ?o = "testSettings (ascii ''gemini'') (ascii ''own-key'') None"
  have 1: "apiKey ?s = [] \<and> env_API_KEY ?w = Some (ascii ''env-key'') \<and> ascii ''env-key'' \<noteq> []"
    by (simp add: testSettings_def testWorld_def ascii_def)
  have 2: "apiKey ?o \<noteq> []"
    by (simp add: testSettings_def ascii_def)
  have 3: "apiKey ?s = [] \<and> (env_API_KEY ?n = None \<or> env_API_KEY ?n = Some [])"
    by (simp add: testSettings_def testWorld_def)
  have a: "fst (generateWithGemini ?w (ascii ''goal'') ?s (ascii ''today''))
             = [GenerateContent (geminiRequest (ascii ''env-key'') (ascii ''goal'') ?s (ascii ''today''))]"
    using gemini_effective_key [of ?w "ascii ''goal''" ?s "ascii ''today''"] 1 by blast
  have b: "fst (generateWithGemini ?w (ascii ''goal'') ?o (ascii ''today''))
             = [GenerateContent (geminiRequest (apiKey ?o) (ascii ''goal'') ?o (ascii ''today''))]"
    using gemini_effective_key [of ?w "ascii ''goal''" ?o "ascii ''today''"] 2 by blast
  have c: "generateWithGemini ?n (ascii ''goal'') ?s (ascii ''today'')
             = ([], Inl (Error (ascii ''Gemini API Key is missing.'')))"
    using gemini_effective_key [of ?n "ascii ''goal''" ?s "ascii ''today''"] 3 by blast
  have k: "apiKey ?o = ascii ''own-key''" by (simp add: testSettings_def)
  show ?thesis using a b c unfolding k by simp
qed

lemma digits_nonempty: "digits n \<noteq> []"
  by (subst digits.simps) simp

lemma digits_401: "digits 401 = ascii ''401''"
  by code_simp

lemma decimal_snoc: "decimal (s @ [c]) = 10 * decimal s + (unat c - 48)"
  by (simp add: decimal_def)

lemma unat_digit: "d < 10 \<Longrightarrow> unat (of_nat (48 + d) :: 16 word) = 48 + d"
  by (rule of_nat_inverse) simp_all

lemma decimal_digits: "decimal (digits n) = n"
proof (induction n rule: digits.induct)
  case (1 n)
  show ?case
  proof (cases "n < 10")
    case True
    then show ?thesis
      using unat_digit [of n] by (subst digits.simps) (simp add: decimal_def)
  next
    case False
    then have "decimal (digits (n div 10)) = n div 10" using 1 by simp
    moreover have "unat (of_nat (48 + n mod 10) :: 16 word) = 48 + n mod 10"
      by (rule unat_digit) simp
    ultimately show ?thesis
      using False by (subst digits.simps) (simp add: decimal_snoc)
  qed
qed

lemma digits_are_digits: "list_all isDigit (digits n)"
proof (induction n rule: digits.induct)
  case (1 n)
  have d: "isDigit (of_nat (48 + k))" if "k < 10" for k
  proof -
    have "unat (of_nat (48 + k) :: 16 word) = 48 + k" using that by (rule unat_digit)
    then show ?thesis using that by (simp add: isDigit_def word_le_nat_alt)
  qed
  show ?case
  proof (cases "n < 10")
    case True
    then show ?thesis using d [of n] by (subst digits.simps) simp
  next
    case False
    then show ?thesis using 1 d [of "n mod 10"] by (subst digits.simps) simp
  qed
qed

lemma parse_empty_object: "JSON_parse (ascii ''{}'') = Some (JObject [])"
  by code_simp

text \<open>
  C4, as stated, fails for the Gemini adapter: with an empty configured key and a
  process-level key it issues the SDK call and returns its result.
\<close>

theorem missing_credential_counterexample:
  "apiKey (testSettings (ascii ''gemini'') [] None) = []
   \<and> generateWithGemini (testWorld (testResponse 200 []) (Some (ascii ''{}'')) (Some (ascii ''env-key'')))
        (ascii ''goal'') (testSettings (ascii ''gemini'') [] None) (ascii ''today'')
     = ([GenerateContent (geminiRequest (ascii ''env-key'') (ascii ''goal'')
           (testSettings (ascii ''gemini'') [] None) (ascii ''today''))],
        Inr (JObject []))"
proof -
  have "ascii ''env-key'' \<noteq> []" "ascii ''{}'' \<noteq> []" by (simp_all add: ascii_def)
  then show ?thesis
    by (simp add: generateWithGemini_def gemini_apiKeyToUse_def truthy_def testSettings_def
        testWorld_def JSON_parse_throw_def parse_empty_object Let_def)
qed

text \<open>
  C4, amended. With an empty configured key, the OpenAI-compatible adapter, the Gemini
  validation call and both verification handlers fail with their missing-key message
  and issue no network call; the Gemini adapter does so when the process-level key is
  absent or empty as well. Through \<^verbatim>\<open>generateWeeklyPlan\<close> the same holds once the time
  zone has been accepted.
\<close>

theorem missing_credential:
  "apiKey s = [] \<Longrightarrow>
     generateWithOpenAI w g s d
       = ([], Inl (Error (ascii ''API Key (sk-...) is required for this provider.'')))
   \<and> (env_API_KEY w = None \<or> env_API_KEY w = Some [] \<longrightarrow>
        generateWithGemini w g s d = ([], Inl (Error (ascii ''Gemini API Key is missing.''))))
   \<and> validateGeminiConnection w (apiKey s)
       = ([], Inl (Error ([0x8BF7, 0x8F93, 0x5165] @ ascii '' API Key'')))
   \<and> handleVerifyOpenAI w s st
       = ([], st\<lparr> connectionStatus := Failure,
                   statusMessage := [0x8BF7, 0x5148, 0x8F93, 0x5165] @ ascii '' API Key'' \<rparr>)
   \<and> handleVerifyGemini w s st
       = ([], st\<lparr> connectionStatus := Failure,
                   statusMessage := [0x8BF7, 0x5148, 0x8F93, 0x5165] @ ascii '' API Key'' \<rparr>)
   \<and> (formatDate w (timezone s) \<noteq> None \<and> provider s = ascii ''openai'' \<longrightarrow>
        generateWeeklyPlan w g s
          = ([], Inl (Error (ascii ''API Key (sk-...) is required for this provider.''))))
   \<and> (formatDate w (timezone s) \<noteq> None \<and> provider s \<noteq> ascii ''openai''
        \<and> (env_API_KEY w = None \<or> env_API_KEY w = Some []) \<longrightarrow>
        generateWeeklyPlan w g s = ([], Inl (Error (ascii ''Gemini API Key is missing.''))))"
  by (auto simp: generateWithOpenAI_def generateWithGemini_def gemini_apiKeyToUse_def truthy_def
        validateGeminiConnection_def handleVerifyOpenAI_def handleVerifyGemini_def
        generateWeeklyPlan_def Let_def)

theorem missing_credential_witness:
  "generateWithOpenAI (testWorld (testResponse 200 []) (Some (ascii ''{}'')) (Some (ascii ''env-key'')))
       (ascii ''goal'') (testSettings (ascii ''openai'') [] None) (ascii ''today'')
     = ([], Inl (Error (ascii ''API Key (sk-...) is required for this provider.'')))
   \<and> generateWithGemini (testWorld (testResponse 200 []) (Some (ascii ''{}'')) None)
       (ascii ''goal'') (testSettings (ascii ''openai'') [] None) (ascii ''today'')
     = ([], Inl (Error (ascii ''Gemini API Key is missing.'')))
   \<and> fst (handleVerifyOpenAI (testWorld (testResponse 200 []) (Some (ascii ''{}'')) None)
       (testSettings (ascii ''openai'') [] None) testState) = []
   \<and> fst (handleVerifyGemini (testWorld (testResponse 200 []) (Some (ascii ''{}'')) None)
       (testSettings (ascii ''openai'') [] None) testState) = []"
proof -
  let ?w = "testWorld (testResponse 200 []) (Some (ascii ''{}'')) (Some (ascii ''env-key''))"
  let ?n = "testWorld (testResponse 200 []) (Some (ascii ''{}'')) None"
  let ?s = "testSettings (ascii ''openai'') [] None"
  have k: "apiKey ?s = []" by (simp add: testSettings_def)
  have e: "env_API_KEY ?n = None \<or> env_API_KEY ?n = Some []" by (simp add: testWorld_def)
  have a: "generateWithOpenAI ?w (ascii ''goal'') ?s (ascii ''today'')
     = ([], Inl (Error (ascii ''API Key (sk-...) is required for this provider.'')))"
    using missing_credential [OF k, of ?w] by blast
  have b: "generateWithGemini ?n (ascii ''goal'') ?s (ascii ''today'')
     = ([], Inl (Error (ascii ''Gemini API Key is missing.'')))"
    using missing_credential [OF k, of ?n] e by blast
  have c: "fst (handleVerifyOpenAI ?n ?s testState) = []"
    using missing_credential [OF k, of ?n _ _ testState] by simp
  have d: "fst (handleVerifyGemini ?n ?s testState) = []"
    using missing_credential [OF k, of ?n _ _ testState] by simp
  show ?thesis using a b c d by simp
qed

section \<open>Failed requests\<close>

text \<open>
  C7. When the endpoint answers with a status outside 200 to 299, the adapter rejects
  with an error whose message contains the status code and the response body, and the
  models probe ends in the error state with the message \<^verbatim>\<open>HTTP\<close> and the status code.
  The status code is written as decimal digits that read back as the status of the
  response. Either operation issues that one request only. For status 401 the digits
  are \<^verbatim>\<open>401\<close>.
\<close>

theorem request_failed:
  "apiKey s \<noteq> [] \<Longrightarrow> \<not> ok r \<Longrightarrow>
     (fetch w (chatRequest g s d) = Inr r \<longrightarrow>
        generateWithOpenAI w g s d
          = ([Fetch (chatRequest g s d)],
             Inl (Error (ascii ''API Request failed: '' @ digits (status r) @ ascii '' ''
                         @ statusText r @ ascii '' - '' @ responseText r)))
        \<and> includes_str (ascii ''API Request failed: '' @ digits (status r) @ ascii '' ''
                         @ statusText r @ ascii '' - '' @ responseText r) (digits (status r))
        \<and> includes_str (ascii ''API Request failed: '' @ digits (status r) @ ascii '' ''
                         @ statusText r @ ascii '' - '' @ responseText r) (responseText r))
   \<and> (fetch w (modelsRequest s) = Inr r \<longrightarrow>
        fst (handleVerifyOpenAI w s st) = [Fetch (modelsRequest s)]
        \<and> connectionStatus (snd (handleVerifyOpenAI w s st)) = Failure
        \<and> statusMessage (snd (handleVerifyOpenAI w s st)) = ascii ''HTTP '' @ digits (status r)
        \<and> includes_str (statusMessage (snd (handleVerifyOpenAI w s st))) (digits (status r)))
   \<and> decimal (digits (status r)) = status r
   \<and> list_all isDigit (digits (status r))
   \<and> (status r = 401 \<longrightarrow> digits (status r) = ascii ''401'')"
proof (intro conjI impI)
  show "decimal (digits (status r)) = status r" by (rule decimal_digits)
  show "list_all isDigit (digits (status r))" by (rule digits_are_digits)
  assume k: "apiKey s \<noteq> []" and nok: "\<not> ok r"
  let ?m = "ascii ''API Request failed: '' @ digits (status r) @ ascii '' ''
              @ statusText r @ ascii '' - '' @ responseText r"
  show "includes_str ?m (digits (status r))"
    by (rule includes_str_middle)
  have "includes_str ((ascii ''API Request failed: '' @ digits (status r) @ ascii '' ''
              @ statusText r @ ascii '' - '') @ responseText r @ []) (responseText r)"
    by (rule includes_str_middle)
  then show "includes_str ?m (responseText r)" by simp
  {
    assume f: "fetch w (chatRequest g s d) = Inr r"
    show "generateWithOpenAI w g s d = ([Fetch (chatRequest g s d)], Inl (Error ?m))"
      using k nok f by (simp add: generateWithOpenAI_def truthy_def Let_def chatResponse_def)
  }
  {
    assume f: "fetch w (modelsRequest s) = Inr r"
    have h: "ascii ''HTTP '' @ digits (status r) \<noteq> []" by (simp add: digits_nonempty)
    show "fst (handleVerifyOpenAI w s st) = [Fetch (modelsRequest s)]"
      using k by (simp add: handleVerifyOpenAI_def truthy_def Let_def)
    show "connectionStatus (snd (handleVerifyOpenAI w s st)) = Failure"
      using k nok f by (simp add: handleVerifyOpenAI_def truthy_def Let_def modelsResponse_def)
    show msg: "statusMessage (snd (handleVerifyOpenAI w s st)) = ascii ''HTTP '' @ digits (status r)"
      using k nok f h
      by (simp add: handleVerifyOpenAI_def truthy_def Let_def modelsResponse_def message_def orElse_def)
    have "includes_str (ascii ''HTTP '' @ digits (status r) @ []) (digits (status r))"
      by (rule includes_str_middle)
    then show "includes_str (statusMessage (snd (handleVerifyOpenAI w s st))) (digits (status r))"
      using msg by simp
  }
  {
    assume "status r = 401"
    then show "digits (status r) = ascii ''401''" by (simp add: digits_401)
  }
qed

theorem request_failed_witness:
  "generateWithOpenAI (testWorld (testResponse 401 (ascii ''denied'')) None None)
       (ascii ''goal'') (testSettings (ascii ''openai'') (ascii ''sk-1'') None) (ascii ''today'')
     = ([Fetch (chatRequest (ascii ''goal'') (testSettings (ascii ''openai'') (ascii ''sk-1'') None)
                  (ascii ''today''))],
        Inl (Error (ascii ''API Request failed: 401  - denied'')))
   \<and> statusMessage (snd (handleVerifyOpenAI (testWorld (testResponse 401 (ascii ''denied'')) None None)
       (testSettings (ascii ''openai'') (ascii ''sk-1'') None) testState)) = ascii ''HTTP 401''"
proof -
  let ?r = "testResponse 401 (ascii ''denied'')"
  let ?w = "testWorld ?r None None"
  let ?s = "testSettings (ascii ''openai'') (ascii ''sk-1'') None"
  have k: "apiKey ?s \<noteq> []" by (simp add: testSettings_def ascii_def)
  have nok: "\<not> ok ?r" by (simp add: ok_def testResponse_def)
  have f: "fetch ?w (chatRequest (ascii ''goal'') ?s (ascii ''today'')) = Inr ?r"
    "fetch ?w (modelsRequest ?s) = Inr ?r"
    by (simp_all add: testWorld_def)
  have st: "status ?r = 401" "statusText ?r = []" "responseText ?r = ascii ''denied''"
    by (simp_all add: testResponse_def)
  note t = request_failed [OF k nok, of ?w "ascii ''goal''" "ascii ''today''" testState]
  have d: "digits (status ?r) = ascii ''401''" using t st(1) by blast
  have a: "generateWithOpenAI ?w (ascii ''goal'') ?s (ascii ''today'')
     = ([Fetch (chatRequest (ascii ''goal'') ?s (ascii ''today''))],
        Inl (Error (ascii ''API Request failed: '' @ digits (status ?r) @ ascii '' ''
                         @ statusText ?r @ ascii '' - '' @ responseText ?r)))"
    using t f(1) by blast
  have b: "statusMessage (snd (handleVerifyOpenAI ?w ?s testState)) = ascii ''HTTP '' @ digits (status ?r)"
    using t f(2) by blast
  show ?thesis
    using a [unfolded d st(2,3)] b [unfolded d] by (simp add: ascii_def)
qed


section \<open>\<^verbatim>\<open>JSON.parse\<close> and surrounding white space\<close>

text \<open>
  Every white space character of \<^verbatim>\<open>trim\<close> is either JSON white space, which the lexer
  skips between tokens, or a character no JSON text can start or end with. So trimming
  a text that parses does not change its tokens.
\<close>

text \<open>The parser on some texts, among them ill-formed ones.\<close>

lemma JSON_parse_examples:
  \<open>JSON_parse (ascii '' {"a": [1, -2.5e+3, true, false, null], "b": {"c": ""}} '')
     = Some (JObject [(ascii ''a'', JArray [JNumber (ascii ''1''), JNumber (ascii ''-2.5e+3''),
                         JBool True, JBool False, JNull]),
                      (ascii ''b'', JObject [(ascii ''c'', JString [])])])\<close>
  \<open>JSON_parse (ascii ''"a'' @ [0x5C] @ ascii ''n'' @ [0x5C] @ ascii ''u00e9"'') = Some (JString [0x61, 0x0A, 0xE9])\<close>
  \<open>JSON_parse [] = None\<close>
  \<open>JSON_parse (ascii ''{"a":1,}'') = None\<close>
  \<open>JSON_parse (ascii ''[1 2]'') = None\<close>
  \<open>JSON_parse (ascii ''01'') = None\<close>
  \<open>JSON_parse (ascii ''{} x'') = None\<close>
  \<open>JSON_parse (0xA0 # ascii ''{}'') = None\<close>
  by code_simp+

text \<open>Number literals that denote zero, among them two that underflow.\<close>

lemma isZeroLiteral_examples:
  "isZeroLiteral (ascii ''0'')" "isZeroLiteral (ascii ''-0.00e7'')" "isZeroLiteral (ascii ''1e-400'')"
  "isZeroLiteral (ascii ''2e-324'')" "\<not> isZeroLiteral (ascii ''3e-324'')"
  "\<not> isZeroLiteral (ascii ''0.7'')" "\<not> isZeroLiteral (ascii ''10'')" "\<not> isZeroLiteral (ascii ''1E+2'')"
  by (simp_all add: isZeroLiteral_def literalMantissa_def literalFraction_def literalExponent_def
      notExponent_def decimal_def isDigit_def code_unit_def ascii_def Let_def)

lemma whiteSpace_cases:
  "isWhiteSpace c \<Longrightarrow> isJsonWS c \<or> c = 0x0B \<or> c = 0x0C \<or> 0xA0 \<le> c"
  unfolding isWhiteSpace_def isJsonWS_def by (elim disjE conjE; simp; unat_arith)

lemma lexStart_high: "(0xA0 :: 16 word) \<le> c \<Longrightarrow> lexStart ts c = (ts, LFail)"
proof -
  assume h: "0xA0 \<le> c"
  have "c \<noteq> 0x09" "c \<noteq> 0x0A" "c \<noteq> 0x0D" "c \<noteq> 0x20" "c \<noteq> 0x7B" "c \<noteq> 0x7D" "c \<noteq> 0x5B" "c \<noteq> 0x5D"
    "c \<noteq> 0x3A" "c \<noteq> 0x2C" "c \<noteq> 0x22" "c \<noteq> 0x2D" "c \<noteq> 0x30" "\<not> c \<le> 0x39" "c \<noteq> 0x74" "c \<noteq> 0x66" "c \<noteq> 0x6E"
    using h by unat_arith+
  then show ?thesis
    by (simp add: lexStart_def isJsonWS_def code_unit_def isDigit_def)
qed

lemma lexStart_whiteSpace:
  "isWhiteSpace c \<Longrightarrow> lexStart ts c = (if isJsonWS c then (ts, LStart) else (ts, LFail))"
  apply (drule whiteSpace_cases)
  apply (erule disjE, simp add: lexStart_def)
  apply (erule disjE, simp add: lexStart_def isJsonWS_def code_unit_def isDigit_def)
  apply (erule disjE, simp add: lexStart_def isJsonWS_def code_unit_def isDigit_def)
  apply (frule lexStart_high [of _ ts])
  apply (subgoal_tac "\<not> isJsonWS c")
   apply simp
  apply (unfold isJsonWS_def)
  apply unat_arith
  done


lemma whiteSpace_plain:
  assumes "isWhiteSpace c"
  shows "c \<noteq> 0x22" "c \<noteq> 0x5C" "c \<noteq> 0x2B" "c \<noteq> 0x2D" "c \<noteq> 0x2E" "c \<noteq> 0x45" "c \<noteq> 0x65"
    "c \<noteq> 0x30" "\<not> isDigit c"
proof -
  from assms have "isJsonWS c \<or> c = 0x0B \<or> c = 0x0C \<or> 0xA0 \<le> c"
    by (rule whiteSpace_cases)
  then have "c = 0x09 \<or> c = 0x0A \<or> c = 0x0D \<or> c = 0x20 \<or> c = 0x0B \<or> c = 0x0C \<or> 0xA0 \<le> c"
    by (auto simp: isJsonWS_def)
  then show "c \<noteq> 0x22" "c \<noteq> 0x5C" "c \<noteq> 0x2B" "c \<noteq> 0x2D" "c \<noteq> 0x2E" "c \<noteq> 0x45" "c \<noteq> 0x65"
    "c \<noteq> 0x30" "\<not> isDigit c"
    unfolding isDigit_def by unat_arith+
qed

lemma lexNumber_whiteSpace: "isWhiteSpace c \<Longrightarrow> lexNumber stage c = None"
  using whiteSpace_plain [of c]
  by (cases stage) (simp_all add: lexNumber_def code_unit_def Let_def)

lemma foldl_lexStep_fail: "foldl lexStep (ts, LFail) s = (ts, LFail)"
  by (induction s) simp_all

lemma lexFinish_escape: "lexFinish (ts, lexEscape acc c) = None"
  by (simp add: lexEscape_def)

lemma literal_letters:
  "list_all (\<lambda>c. \<not> isWhiteSpace c) (ascii ''rue'')"
  "list_all (\<lambda>c. \<not> isWhiteSpace c) (ascii ''alse'')"
  "list_all (\<lambda>c. \<not> isWhiteSpace c) (ascii ''ull'')"
  by (simp_all add: ascii_def isWhiteSpace_def)

lemma lexStart_pending:
  "list_all (\<lambda>c. \<not> isWhiteSpace c) (wordPending (snd (lexStart ts c)))"
  using literal_letters by (simp add: lexStart_def)

lemma lexStep_pending:
  "list_all (\<lambda>c. \<not> isWhiteSpace c) (wordPending st) \<Longrightarrow>
   list_all (\<lambda>c. \<not> isWhiteSpace c) (wordPending (snd (lexStep (ts, st) c)))"
proof (cases st)
  case LStart
  then show ?thesis using lexStart_pending by simp
next
  case (LNumber stage lexeme)
  then show ?thesis using lexStart_pending by (simp split: option.splits)
next
  case (LWord rest tok)
  assume "list_all (\<lambda>c. \<not> isWhiteSpace c) (wordPending st)"
  with LWord show ?thesis by (cases rest) simp_all
next
  case (LEscape acc)
  then show ?thesis by (simp add: lexEscape_def)
qed (simp_all split: option.splits)

lemma foldl_lexStep_pending:
  "list_all (\<lambda>c. \<not> isWhiteSpace c) (wordPending (snd \<sigma>)) \<Longrightarrow>
   list_all (\<lambda>c. \<not> isWhiteSpace c) (wordPending (snd (foldl lexStep \<sigma> s)))"
proof (induction s arbitrary: \<sigma>)
  case Nil
  then show ?case by simp
next
  case (Cons c s)
  obtain ts st where \<sigma>: "\<sigma> = (ts, st)" by (cases \<sigma>)
  have "list_all (\<lambda>c. \<not> isWhiteSpace c) (wordPending (snd (lexStep \<sigma> c)))"
    using Cons.prems lexStep_pending [of st ts c] by (simp add: \<sigma>)
  then show ?case using Cons.IH by simp
qed

lemma lexStep_whiteSpace:
  assumes ws: "isWhiteSpace c"
    and pending: "list_all (\<lambda>c. \<not> isWhiteSpace c) (wordPending st)"
    and fin: "lexFinish (lexStep (ts, st) c) = Some out"
  shows "lexFinish (ts, st) = Some out"
proof (cases st)
  case LStart
  then show ?thesis using fin ws by (simp add: lexStart_whiteSpace split: if_splits)
next
  case (LString acc)
  then show ?thesis using fin whiteSpace_plain [OF ws]
    by (simp add: code_unit_def split: if_splits)
next
  case (LEscape acc)
  then show ?thesis using fin by (simp add: lexFinish_escape)
next
  case (LHex acc k v)
  then show ?thesis using fin by (simp split: option.splits if_splits)
next
  case (LNumber stage lexeme)
  then show ?thesis using fin ws
    by (simp add: lexNumber_whiteSpace lexStart_whiteSpace split: if_splits)
next
  case (LWord rest tok)
  show ?thesis
  proof (cases rest)
    case Nil
    then show ?thesis using fin LWord by simp
  next
    case (Cons r rs)
    then have "c \<noteq> r" using pending ws LWord by auto
    then show ?thesis using fin LWord Cons by simp
  qed
next
  case LFail
  then show ?thesis using fin by simp
qed

lemma tokenize_snoc_whiteSpace:
  assumes "isWhiteSpace c" and "tokenize (s @ [c]) = Some out"
  shows "tokenize s = Some out"
proof -
  obtain ts st where \<sigma>: "foldl lexStep ([], LStart) s = (ts, st)"
    by (cases "foldl lexStep ([], LStart) s")
  have "list_all (\<lambda>c. \<not> isWhiteSpace c) (wordPending (snd (foldl lexStep ([], LStart) s)))"
    by (rule foldl_lexStep_pending) simp
  then have "list_all (\<lambda>c. \<not> isWhiteSpace c) (wordPending st)" by (simp add: \<sigma>)
  moreover have "lexFinish (lexStep (ts, st) c) = Some out"
    using assms(2) by (simp add: tokenize_def \<sigma>)
  ultimately have "lexFinish (ts, st) = Some out"
    using assms(1) by (rule lexStep_whiteSpace [rotated])
  then show ?thesis by (simp add: tokenize_def \<sigma>)
qed

lemma tokenize_trimEnd: "tokenize s = Some out \<Longrightarrow> tokenize (trimEnd s) = Some out"
proof (induction s rule: rev_induct)
  case Nil
  then show ?case by (simp add: trimEnd_def)
next
  case (snoc c s)
  show ?case
  proof (cases "isWhiteSpace c")
    case True
    then have "tokenize s = Some out" using snoc.prems by (rule tokenize_snoc_whiteSpace)
    then have "tokenize (trimEnd s) = Some out" by (rule snoc.IH)
    moreover have "trimEnd (s @ [c]) = trimEnd s" using True by (simp add: trimEnd_def)
    ultimately show ?thesis by simp
  next
    case False
    then have "trimEnd (s @ [c]) = s @ [c]" by (simp add: trimEnd_def)
    then show ?thesis using snoc.prems by simp
  qed
qed

lemma tokenize_Cons_whiteSpace:
  assumes "isWhiteSpace c" and "tokenize (c # s) = Some out"
  shows "tokenize s = Some out"
proof (cases "isJsonWS c")
  case True
  then show ?thesis using assms by (simp add: tokenize_def lexStart_whiteSpace)
next
  case False
  then have "tokenize (c # s) = None"
    using assms(1) by (simp add: tokenize_def lexStart_whiteSpace foldl_lexStep_fail)
  then show ?thesis using assms(2) by simp
qed

lemma tokenize_trimStart: "tokenize s = Some out \<Longrightarrow> tokenize (trimStart s) = Some out"
proof (induction s)
  case Nil
  then show ?case by (simp add: trimStart_def)
next
  case (Cons c s)
  show ?case
  proof (cases "isWhiteSpace c")
    case True
    then have "tokenize s = Some out" using Cons.prems by (rule tokenize_Cons_whiteSpace)
    then have "tokenize (trimStart s) = Some out" by (rule Cons.IH)
    then show ?thesis using True by (simp add: trimStart_def)
  next
    case False
    then show ?thesis using Cons.prems by (simp add: trimStart_def)
  qed
qed

lemma JSON_parse_trim: "JSON_parse s = Some v \<Longrightarrow> JSON_parse (trim s) = Some v"
proof -
  assume p: "JSON_parse s = Some v"
  then obtain out where t: "tokenize s = Some out" and o: "parseTokens out = Some v"
    by (auto simp: JSON_parse_def split: option.splits)
  have "tokenize (trim s) = Some out"
    unfolding trim_def using t by (intro tokenize_trimEnd tokenize_trimStart)
  then show ?thesis using o by (simp add: JSON_parse_def)
qed

lemma JSON_parse_nonempty: "JSON_parse s = Some v \<Longrightarrow> s \<noteq> []"
  by (auto simp: JSON_parse_def tokenize_def parseTokens_def)

lemma JSON_parse_first:
  assumes "JSON_parse s = Some v"
  shows "\<not> startsWith s (ascii ''```'')" and "hd s \<noteq> 0x6A"
proof -
  obtain c cs where s: "s = c # cs"
    using JSON_parse_nonempty [OF assms] by (cases s) auto
  have "lexStart [] c \<noteq> ([], LFail)"
  proof
    assume "lexStart [] c = ([], LFail)"
    then have "tokenize s = None" by (simp add: s tokenize_def foldl_lexStep_fail)
    then show False using assms by (simp add: JSON_parse_def)
  qed
  then have "c \<noteq> 0x60 \<and> c \<noteq> 0x6A"
    by (auto simp: lexStart_def isJsonWS_def code_unit_def isDigit_def)
  then show "\<not> startsWith s (ascii ''```'')" and "hd s \<noteq> 0x6A"
    by (auto simp: s startsWith_def ascii_def)
qed

section \<open>Code fences\<close>

lemma trim_id:
  assumes "s \<noteq> []" and "\<not> isWhiteSpace (hd s)" and "\<not> isWhiteSpace (last s)"
  shows "trim s = s"
proof -
  have "dropWhile isWhiteSpace s = s"
    using assms(2) by (simp add: dropWhile_eq_self_iff)
  moreover have "dropWhile isWhiteSpace (rev s) = rev s"
    using assms(1,3) by (simp add: dropWhile_eq_self_iff hd_rev)
  ultimately show ?thesis by (simp add: trim_def trimStart_def trimEnd_def)
qed

lemma replaceAtStart_append: "replaceAtStart p (p @ s) = s"
  by (simp add: replaceAtStart_def startsWith_def)

lemma replaceAtEnd_append: "replaceAtEnd p (s @ p) = s"
  by (simp add: replaceAtEnd_def endsWith_def)

lemma backtick_not_whiteSpace: "\<not> isWhiteSpace 0x60"
  by (simp add: isWhiteSpace_def)

lemma trim_fenced: "trim (ascii ''```'' @ s @ ascii ''```'') = ascii ''```'' @ s @ ascii ''```''"
  by (rule trim_id) (simp_all add: ascii_def backtick_not_whiteSpace)

lemma stripFence_json: "stripFence (ascii ''```json'' @ c @ ascii ''```'') = c"
proof -
  have split: "ascii ''```json'' = ascii ''```'' @ ascii ''json''" by (simp add: ascii_def)
  have t: "trim (ascii ''```json'' @ c @ ascii ''```'') = ascii ''```json'' @ c @ ascii ''```''"
    using trim_fenced [of "ascii ''json'' @ c"] by (simp add: split)
  have s: "startsWith (ascii ''```json'' @ c @ ascii ''```'') (ascii ''```json'')"
    by (simp add: startsWith_def)
  show ?thesis
    unfolding stripFence_def t Let_def using s
    by (simp add: replaceAtStart_append replaceAtEnd_append)
qed

lemma stripFence_bare:
  assumes "\<not> startsWith (ascii ''```'' @ c @ ascii ''```'') (ascii ''```json'')"
  shows "stripFence (ascii ''```'' @ c @ ascii ''```'') = c"
proof -
  have s: "startsWith (ascii ''```'' @ c @ ascii ''```'') (ascii ''```'')"
    by (simp add: startsWith_def)
  show ?thesis
    unfolding stripFence_def trim_fenced Let_def using s assms
    by (simp add: replaceAtStart_append replaceAtEnd_append)
qed

lemma stripFence_plain: "\<not> startsWith (trim k) (ascii ''```'') \<Longrightarrow> stripFence k = trim k"
proof -
  assume n: "\<not> startsWith (trim k) (ascii ''```'')"
  have "startsWith (trim k) (ascii ''```json'') \<Longrightarrow> startsWith (trim k) (ascii ''```'')"
    by (auto simp: startsWith_prefix ascii_def prefix_def)
  then show ?thesis using n by (auto simp: stripFence_def Let_def)
qed

lemma JSON_parse_not_json_fence:
  assumes "JSON_parse c = Some v"
  shows "\<not> startsWith (ascii ''```'' @ c @ t) (ascii ''```json'')"
proof -
  obtain x xs where c: "c = x # xs"
    using JSON_parse_nonempty [OF assms] by (cases c) auto
  have "x \<noteq> 0x6A"
    using JSON_parse_first(2) [OF assms] by (simp add: c)
  then show ?thesis by (simp add: c startsWith_def ascii_def)
qed

lemma JSON_parse_stripFence:
  assumes "JSON_parse c = Some v"
  shows "JSON_parse (stripFence (ascii ''```json'' @ c @ ascii ''```'')) = Some v"
    and "JSON_parse (stripFence (ascii ''```'' @ c @ ascii ''```'')) = Some v"
    and "JSON_parse (stripFence c) = Some v"
    and "stripFence c = trim c"
proof -
  show "JSON_parse (stripFence (ascii ''```json'' @ c @ ascii ''```'')) = Some v"
    using assms by (simp add: stripFence_json)
  show "JSON_parse (stripFence (ascii ''```'' @ c @ ascii ''```'')) = Some v"
    using assms JSON_parse_not_json_fence [OF assms] by (simp add: stripFence_bare)
  have t: "JSON_parse (trim c) = Some v" using assms by (rule JSON_parse_trim)
  show "stripFence c = trim c"
    using JSON_parse_first(1) [OF t] by (rule stripFence_plain)
  then show "JSON_parse (stripFence c) = Some v" using t by simp
qed

text \<open>Fences with and without line breaks, a leading fence alone, a trailing fence alone.\<close>

lemma stripFence_examples:
  \<open>stripFence (ascii ''  ```json\<newline>{"a":1}\<newline>```\<newline>'') = ascii ''\<newline>{"a":1}\<newline>''\<close>
  \<open>stripFence (ascii ''```\<newline>{"a":1}\<newline>```'') = ascii ''\<newline>{"a":1}\<newline>''\<close>
  \<open>stripFence (ascii ''```json{"a":1}'') = ascii ''{"a":1}''\<close>
  \<open>stripFence (ascii ''{"a":1}```'') = ascii ''{"a":1}```''\<close>
  \<open>stripFence (0xA0 # ascii ''{"a":1}'') = ascii ''{"a":1}''\<close>
  by code_simp+

lemma generateWithOpenAI_content:
  assumes "apiKey s \<noteq> []" and "fetch w (chatRequest g s d) = Inr r" and "ok r"
    and "JSON_parse (responseText r) = Some data"
    and "messageContent data = Inr (Some (JString content))" and "content \<noteq> []"
  shows "generateWithOpenAI w g s d
           = ([Fetch (chatRequest g s d)], JSON_parse_throw (stripFence content))"
  using assms
  by (simp add: generateWithOpenAI_def truthy_def Let_def chatResponse_def JSON_parse_throw_def
      parseContent_def)


lemma parse_chat_body:
  \<open>JSON_parse (ascii ''{"choices":[{"message":{"content":"```json[1]```"}}]}'')
     = Some (JObject [(ascii ''choices'',
         JArray [JObject [(ascii ''message'',
           JObject [(ascii ''content'', JString (ascii ''```json[1]```''))])]])])\<close>
  by code_simp

lemma content_chat_body:
  "messageContent (JObject [(ascii ''choices'',
         JArray [JObject [(ascii ''message'',
           JObject [(ascii ''content'', JString (ascii ''```json[1]```''))])]])])
     = Inr (Some (JString (ascii ''```json[1]```'')))"
  by code_simp







section \<open>Malformed responses\<close>

lemma parse_empty_array: "JSON_parse (ascii ''[]'') = Some (JArray [])"
  by code_simp

lemma parse_not_json: "JSON_parse (ascii ''Sure! Here is your plan.'') = None"
  by code_simp

lemma parse_plan:
  \<open>JSON_parse (ascii ''{"refinedGoal":"Write","schedule":[{"dayName":"Wed","tasks":["Draft"],"contentIdeas":[]}]}'')
     = Some (JObject [(ascii ''refinedGoal'', JString (ascii ''Write'')),
          (ascii ''schedule'', JArray [JObject [(ascii ''dayName'', JString (ascii ''Wed'')),
             (ascii ''tasks'', JArray [JString (ascii ''Draft'')]),
             (ascii ''contentIdeas'', JArray [])]])])\<close>
  by code_simp

lemma plan_conforms:
  "isApiWeeklyPlanResponse (JObject [(ascii ''refinedGoal'', JString (ascii ''Write'')),
          (ascii ''schedule'', JArray [JObject [(ascii ''dayName'', JString (ascii ''Wed'')),
             (ascii ''tasks'', JArray [JString (ascii ''Draft'')]),
             (ascii ''contentIdeas'', JArray [])]])])"
  by code_simp

lemma generateWithGemini_text:
  assumes "gemini_apiKeyToUse w s = Some k" and "k \<noteq> []"
    and "generateContent w (geminiRequest k g s d) = Inr (Some t)" and "t \<noteq> []"
  shows "generateWithGemini w g s d = ([GenerateContent (geminiRequest k g s d)], JSON_parse_throw t)"
  using assms by (simp add: generateWithGemini_def truthy_def Let_def)


text \<open>
  C2, as stated, fails: a payload that is JSON but not of the response shape is returned
  as it parses. Here the Gemini backend answers with an empty array.
\<close>

theorem malformed_response_counterexample:
  "ascii ''[]'' \<noteq> []
   \<and> JSON_parse (ascii ''[]'') = Some (JArray [])
   \<and> \<not> isApiWeeklyPlanResponse (JArray [])
   \<and> snd (generateWithGemini (testWorld (testResponse 200 []) (Some (ascii ''[]'')) None)
             (ascii ''goal'') (testSettings (ascii ''gemini'') (ascii ''key'') None) (ascii ''today''))
       = Inr (JArray [])"
proof -
  let ?w = "testWorld (testResponse 200 []) (Some (ascii ''[]'')) None"
  let ?s = "testSettings (ascii ''gemini'') (ascii ''key'') None"
  have ne: "ascii ''[]'' \<noteq> []" "ascii ''key'' \<noteq> []" by (simp_all add: ascii_def)
  have k: "gemini_apiKeyToUse ?w ?s = Some (ascii ''key'')"
    using ne by (simp add: gemini_apiKeyToUse_def testSettings_def truthy_def)
  have t: "generateContent ?w (geminiRequest (ascii ''key'') (ascii ''goal'') ?s (ascii ''today''))
             = Inr (Some (ascii ''[]''))"
    by (simp add: testWorld_def)
  have "\<not> isApiWeeklyPlanResponse (JArray [])"
    by (simp add: isApiWeeklyPlanResponse_def member_def isString_def)
  then show ?thesis
    using generateWithGemini_text [OF k ne(2) t ne(1)] ne(1)
    by (simp add: JSON_parse_throw_def parse_empty_array)
qed


text \<open>
  C2, amended. When the backend returns a non-empty text payload, the call fails with
  the \<^verbatim>\<open>SyntaxError\<close> of \<^verbatim>\<open>JSON.parse\<close> exactly when the payload (for the
  OpenAI-compatible adapter: the content after trimming and fence stripping) is not
  JSON, and otherwise returns the parsed value; its shape is not checked. In particular
  content that is itself a JSON text is returned as parsed.
\<close>

theorem malformed_response:
  "(\<forall>k t. gemini_apiKeyToUse w s = Some k \<and> k \<noteq> []
           \<and> generateContent w (geminiRequest k g s d) = Inr (Some t) \<and> t \<noteq> [] \<longrightarrow>
       snd (generateWithGemini w g s d)
         = (case JSON_parse t of None \<Rightarrow> Inl SyntaxError | Some v \<Rightarrow> Inr v))
   \<and> (\<forall>r data c. apiKey s \<noteq> [] \<and> fetch w (chatRequest g s d) = Inr r \<and> ok r
           \<and> JSON_parse (responseText r) = Some data
           \<and> messageContent data = Inr (Some (JString c)) \<and> c \<noteq> [] \<longrightarrow>
       snd (generateWithOpenAI w g s d)
         = (case JSON_parse (stripFence c) of None \<Rightarrow> Inl SyntaxError | Some v \<Rightarrow> Inr v)
       \<and> (\<forall>v. JSON_parse c = Some v \<longrightarrow> snd (generateWithOpenAI w g s d) = Inr v))"
proof (intro conjI allI impI; (elim conjE)?)
  fix k t
  assume "gemini_apiKeyToUse w s = Some k" "k \<noteq> []"
    "generateContent w (geminiRequest k g s d) = Inr (Some t)" "t \<noteq> []"
  then show "snd (generateWithGemini w g s d)
         = (case JSON_parse t of None \<Rightarrow> Inl SyntaxError | Some v \<Rightarrow> Inr v)"
    by (simp add: generateWithGemini_text JSON_parse_throw_def)
next
  fix r data c
  assume a: "apiKey s \<noteq> []" "fetch w (chatRequest g s d) = Inr r" "ok r"
    "JSON_parse (responseText r) = Some data"
    "messageContent data = Inr (Some (JString c))" "c \<noteq> []"
  then show "snd (generateWithOpenAI w g s d)
         = (case JSON_parse (stripFence c) of None \<Rightarrow> Inl SyntaxError | Some v \<Rightarrow> Inr v)"
    by (simp add: generateWithOpenAI_content JSON_parse_throw_def)
next
  fix r data c v
  assume a: "apiKey s \<noteq> []" "fetch w (chatRequest g s d) = Inr r" "ok r"
    "JSON_parse (responseText r) = Some data"
    "messageContent data = Inr (Some (JString c))" "c \<noteq> []"
    and v: "JSON_parse c = Some v"
  show "snd (generateWithOpenAI w g s d) = Inr v"
    using generateWithOpenAI_content [OF a] JSON_parse_stripFence(3) [OF v]
    by (simp add: JSON_parse_throw_def)
qed

theorem malformed_response_witness:
  \<open>snd (generateWithGemini
          (testWorld (testResponse 200 []) (Some (ascii ''Sure! Here is your plan.'')) None)
          (ascii ''goal'') (testSettings (ascii ''gemini'') (ascii ''key'') None) (ascii ''today''))
     = Inl SyntaxError
   \<and> snd (generateWithGemini
          (testWorld (testResponse 200 [])
             (Some (ascii ''{"refinedGoal":"Write","schedule":[{"dayName":"Wed","tasks":["Draft"],"contentIdeas":[]}]}'')) None)
          (ascii ''goal'') (testSettings (ascii ''gemini'') (ascii ''key'') None) (ascii ''today''))
     = Inr (JObject [(ascii ''refinedGoal'', JString (ascii ''Write'')),
          (ascii ''schedule'', JArray [JObject [(ascii ''dayName'', JString (ascii ''Wed'')),
             (ascii ''tasks'', JArray [JString (ascii ''Draft'')]),
             (ascii ''contentIdeas'', JArray [])]])])
   \<and> snd (generateWithOpenAI
      (testWorld (testResponse 200
         (ascii ''{"choices":[{"message":{"content":"```json[1]```"}}]}'')) None None)
      (ascii ''goal'') (testSettings (ascii ''openai'') (ascii ''sk-1'') None) (ascii ''today''))
     = (case JSON_parse (stripFence (ascii ''```json[1]```'')) of
          None \<Rightarrow> Inl SyntaxError | Some v \<Rightarrow> Inr v)\<close>
proof -
  let ?bad = "ascii ''Sure! Here is your plan.''"
  let ?good = \<open>ascii ''{"refinedGoal":"Write","schedule":[{"dayName":"Wed","tasks":["Draft"],"contentIdeas":[]}]}''\<close>
  let ?s = "testSettings (ascii ''gemini'') (ascii ''key'') None"
  let ?wb = "testWorld (testResponse 200 []) (Some ?bad) None"
  let ?wg = "testWorld (testResponse 200 []) (Some ?good) None"
  let ?r = \<open>testResponse 200 (ascii ''{"choices":[{"message":{"content":"```json[1]```"}}]}'')\<close>
  let ?wo = "testWorld ?r None None"
  let ?so = "testSettings (ascii ''openai'') (ascii ''sk-1'') None"
  have ne: "ascii ''key'' \<noteq> []" "?bad \<noteq> []" "?good \<noteq> []" "ascii ''```json[1]```'' \<noteq> []"
    by (simp_all add: ascii_def)
  have k: "gemini_apiKeyToUse ?wb ?s = Some (ascii ''key'')"
    "gemini_apiKeyToUse ?wg ?s = Some (ascii ''key'')"
    using ne(1) by (simp_all add: gemini_apiKeyToUse_def testSettings_def truthy_def)
  have tb: "generateContent ?wb (geminiRequest (ascii ''key'') (ascii ''goal'') ?s (ascii ''today''))
             = Inr (Some ?bad)"
    by (simp add: testWorld_def)
  have tg: "generateContent ?wg (geminiRequest (ascii ''key'') (ascii ''goal'') ?s (ascii ''today''))
             = Inr (Some ?good)"
    by (simp add: testWorld_def)
  have a: "snd (generateWithGemini ?wb (ascii ''goal'') ?s (ascii ''today''))
         = (case JSON_parse ?bad of None \<Rightarrow> Inl SyntaxError | Some v \<Rightarrow> Inr v)"
    using malformed_response [of ?wb ?s "ascii ''goal''" "ascii ''today''"] k(1) ne(1,2) tb by blast
  have b: "snd (generateWithGemini ?wg (ascii ''goal'') ?s (ascii ''today''))
         = (case JSON_parse ?good of None \<Rightarrow> Inl SyntaxError | Some v \<Rightarrow> Inr v)"
    using malformed_response [of ?wg ?s "ascii ''goal''" "ascii ''today''"] k(2) ne(1,3) tg by blast
  have ko: "apiKey ?so \<noteq> []" by (simp add: testSettings_def ascii_def)
  have f: "fetch ?wo (chatRequest (ascii ''goal'') ?so (ascii ''today'')) = Inr ?r"
    by (simp add: testWorld_def)
  have ok: "ok ?r" by (simp add: ok_def testResponse_def)
  have body: "JSON_parse (responseText ?r) = Some (JObject [(ascii ''choices'',
         JArray [JObject [(ascii ''message'',
           JObject [(ascii ''content'', JString (ascii ''```json[1]```''))])]])])"
    unfolding testResponse_def by (simp add: parse_chat_body)
  have c: "snd (generateWithOpenAI ?wo (ascii ''goal'') ?so (ascii ''today''))
     = (case JSON_parse (stripFence (ascii ''```json[1]```'')) of
          None \<Rightarrow> Inl SyntaxError | Some v \<Rightarrow> Inr v)"
    using malformed_response [of ?wo ?so "ascii ''goal''" "ascii ''today''"]
      ko f ok body content_chat_body ne(4) by blast
  show ?thesis
    unfolding a b c by (simp add: parse_not_json parse_plan)
qed


section \<open>The format block of the user prompt\<close>

text \<open>
  Where can a marker occur in the base prompt? The fixed text is cut at four characters
  the marker does not have (one before the date string, one after it, one before the
  goal text, one after it); an occurrence lies between two cuts. The pieces of fixed
  text lack a character the marker has. What remains is the date string after a space,
  and the goal text between a double quote and the closing text, which the marker can
  neither start in nor end in.
\<close>

lemma sublist_across:
  assumes "x \<notin> set m"
  shows "sublist m (a @ x # b) \<longleftrightarrow> sublist m a \<or> sublist m b"
proof
  assume "sublist m (a @ x # b)"
  then consider "sublist m a" | "sublist m (x # b)"
    | m1 m2 where "m = m1 @ m2" "suffix m1 a" "prefix m2 (x # b)"
    unfolding sublist_append by blast
  then show "sublist m a \<or> sublist m b"
  proof cases
    case 1
    then show ?thesis by simp
  next
    case 2
    then have "prefix m (x # b) \<or> sublist m b" by (simp add: sublist_Cons_right)
    moreover have "prefix m (x # b) \<Longrightarrow> m = []"
      using assms by (cases m) auto
    ultimately show ?thesis by auto
  next
    case 3
    have "m2 = []" using 3(1,3) assms by (cases m2) auto
    then have "suffix m a" using 3 by simp
    then show ?thesis by (simp add: suffix_imp_sublist)
  qed
next
  assume "sublist m a \<or> sublist m b"
  then show "sublist m (a @ x # b)"
    by (auto simp: sublist_append sublist_Cons_right)
qed

lemma includes_str_here: "includes_str chunk p \<Longrightarrow> includes_str (chunk @ b) p"
  unfolding includes_str_sublist by (meson sublist_append_rightI sublist_order.order.trans)

lemma includes_str_later: "includes_str b p \<Longrightarrow> includes_str (a @ b) p"
  unfolding includes_str_sublist by (meson sublist_append_leftI sublist_order.order.trans)


lemma suffix_short_hd:
  assumes "suffix m2 m" and "m2 \<noteq> []" and "length m2 \<le> n"
  shows "hd m2 \<in> set (drop (length m - n) m)"
proof -
  obtain a where m: "m = a @ m2" using assms(1) by (auto simp: suffix_def)
  have "drop (length m - n) m = drop (length m - n) a @ m2"
    using assms(3) by (simp add: m)
  then show ?thesis using assms(2) by simp
qed

lemma prompt_1_end: "prompt_1 = butlast (butlast prompt_1) @ [0x662F, 0x20]"
  by code_simp

lemma prompt_2_ends: "prompt_2 = 0xFF0C # butlast (butlast (tl prompt_2)) @ [0xFF1A, 0x22]"
  by code_simp


lemma prompt_3_start: "prompt_3 = goal_closing @ 0x8BF7 # drop 12 prompt_3"
  by code_simp

lemma goal_closing_facts: "length goal_closing = 11" "set goal_closing \<subseteq> set prompt_3"
  "\<And>t. prefix t goal_closing \<Longrightarrow> t \<noteq> [] \<Longrightarrow> hd t = 0x22"
proof -
  show "length goal_closing = 11" by (simp add: goal_closing_def ascii_def)
  show "set goal_closing \<subseteq> set prompt_3" by (subst prompt_3_start) auto
  show "\<And>t. prefix t goal_closing \<Longrightarrow> t \<noteq> [] \<Longrightarrow> hd t = 0x22"
    by (auto simp: goal_closing_def ascii_def prefix_def neq_Nil_conv Cons_eq_append_conv)
qed

lemma in_set_tl: "x \<in> set (tl xs) \<Longrightarrow> x \<in> set xs"
  by (cases xs) auto

lemma marker_in_base_prompt:
  assumes ne: "m \<noteq> []" and first: "hd m \<noteq> 0x20" "hd m \<noteq> 0x22"
    and cjk: "0x662F \<notin> set m" "0xFF0C \<notin> set m" "0xFF1A \<notin> set m" "0x8BF7 \<notin> set m"
    and tail: "0x22 \<notin> set (drop (length m - 11) m)"
    and c: "c \<in> set m" "c \<notin> set prompt_1" "c \<notin> set prompt_2" "c \<notin> set prompt_3"
  shows "sublist m (prompt_1 @ d @ prompt_2 @ g @ prompt_3) \<longleftrightarrow> sublist m d \<or> sublist m g"
proof -
  let ?A = "butlast (butlast prompt_1)"
  let ?B = "butlast (butlast (tl prompt_2))"
  let ?C = "drop 12 prompt_3"
  have whole: "prompt_1 @ d @ prompt_2 @ g @ prompt_3
      = ?A @ 0x662F # ((0x20 # d) @ 0xFF0C # (?B @ 0xFF1A # ((0x22 # g @ goal_closing) @ 0x8BF7 # ?C)))"
    by (subst prompt_1_end, subst prompt_2_ends, subst prompt_3_start) simp
  have fixed: "\<not> sublist m xs" if "c \<notin> set xs" for xs
    using that c(1) set_mono_sublist by blast
  have "c \<notin> set ?A" using c(2) by (auto dest: in_set_butlastD)
  then have nA: "\<not> sublist m ?A" by (rule fixed)
  have "c \<notin> set ?B" using c(3) by (auto dest: in_set_butlastD in_set_tl)
  then have nB: "\<not> sublist m ?B" by (rule fixed)
  have "c \<notin> set ?C" using c(4) by (auto dest: in_set_dropD)
  then have nC: "\<not> sublist m ?C" by (rule fixed)
  have "c \<notin> set goal_closing" using c(4) goal_closing_facts(2) by blast
  then have nT: "\<not> sublist m goal_closing" by (rule fixed)
  have no_prefix: "\<not> prefix m (x # xs)" if "hd m \<noteq> x" for x xs
    using that ne by (cases m) auto
  have sd: "sublist m (0x20 # d) \<longleftrightarrow> sublist m d"
    using no_prefix [OF first(1)] by (simp add: sublist_Cons_right)
  have sg: "sublist m (0x22 # g @ goal_closing) \<longleftrightarrow> sublist m g"
  proof
    assume "sublist m (0x22 # g @ goal_closing)"
    then have "sublist m (g @ goal_closing)"
      using no_prefix [OF first(2)] by (simp add: sublist_Cons_right)
    then consider "sublist m g" | "sublist m goal_closing"
      | m1 m2 where "m = m1 @ m2" "suffix m1 g" "prefix m2 goal_closing"
      unfolding sublist_append by blast
    then show "sublist m g"
    proof cases
      case 1
      then show ?thesis .
    next
      case 2
      then show ?thesis using nT by simp
    next
      case 3
      show ?thesis
      proof (cases "m2 = []")
        case True
        then show ?thesis using 3 by (simp add: suffix_imp_sublist)
      next
        case False
        have "length m2 \<le> 11"
          using 3(3) goal_closing_facts(1) prefix_length_le by fastforce
        moreover have "suffix m2 m" using 3(1) by (simp add: suffix_def)
        ultimately have "hd m2 \<in> set (drop (length m - 11) m)"
          using False by (intro suffix_short_hd)
        moreover have "hd m2 = 0x22" using 3(3) False by (rule goal_closing_facts(3))
        ultimately show ?thesis using tail by simp
      qed
    qed
  next
    assume "sublist m g"
    then show "sublist m (0x22 # g @ goal_closing)"
      by (simp add: sublist_Cons_right sublist_append)
  qed
  show ?thesis
    unfolding whole
    by (simp only: sublist_across [OF cjk(1)] sublist_across [OF cjk(2)] sublist_across [OF cjk(3)]
        sublist_across [OF cjk(4)] nA nB nC sd sg simp_thms)
qed


lemma fixed_text_plain:
  "0x7B \<notin> set prompt_1" "0x7B \<notin> set prompt_2" "0x7B \<notin> set prompt_3"
  "0x44 \<notin> set prompt_1" "0x44 \<notin> set prompt_2" "0x44 \<notin> set prompt_3"
  by (simp_all add: prompt_1_def prompt_2_def prompt_3_def ascii_def)

lemma format_shape_facts:
  "format_shape \<noteq> []" "hd format_shape = 0x7B" "0x7B \<in> set format_shape"
  "0x662F \<notin> set format_shape" "0xFF0C \<notin> set format_shape"
  "0xFF1A \<notin> set format_shape" "0x8BF7 \<notin> set format_shape"
  by (simp_all add: format_shape_def ascii_def)

lemma format_shape_end: "0x22 \<notin> set (drop (length format_shape - 11) format_shape)"
  by code_simp

lemma format_instruction_facts:
  "format_instruction \<noteq> []" "hd format_instruction = 0x44" "0x44 \<in> set format_instruction"
  "0x662F \<notin> set format_instruction" "0xFF0C \<notin> set format_instruction"
  "0xFF1A \<notin> set format_instruction" "0x8BF7 \<notin> set format_instruction"
  "0x22 \<notin> set format_instruction"
  by (simp_all add: format_instruction_def ascii_def)

lemma shape_in_base_prompt:
  "includes_str (prompt_1 @ d @ prompt_2 @ g @ prompt_3) format_shape
     \<longleftrightarrow> includes_str d format_shape \<or> includes_str g format_shape"
  unfolding includes_str_sublist
  by (rule marker_in_base_prompt [where c = "0x7B"])
     (simp_all add: format_shape_facts format_shape_end fixed_text_plain)

lemma instruction_in_base_prompt:
  "includes_str (prompt_1 @ d @ prompt_2 @ g @ prompt_3) format_instruction
     \<longleftrightarrow> includes_str d format_instruction \<or> includes_str g format_instruction"
proof -
  have "0x22 \<notin> set (drop (length format_instruction - 11) format_instruction)"
    using format_instruction_facts(8) by (auto dest: in_set_dropD)
  then show ?thesis
    unfolding includes_str_sublist
    by (intro marker_in_base_prompt [where c = "0x44"])
       (simp_all add: format_instruction_facts fixed_text_plain)
qed

lemma format_contains:
  "includes_str prompt_format format_shape" "includes_str prompt_format format_instruction"
proof -
  have "includes_str (format_heading @ format_shape
          @ (ascii ''\<newline>'' @ ascii ''    '' @ format_instruction @ ascii ''\<newline>'' @ ascii ''    ''))
         format_shape"
    by (rule includes_str_middle)
  then show "includes_str prompt_format format_shape" by (simp add: prompt_format_def)
  have "includes_str ((format_heading @ format_shape @ ascii ''\<newline>'' @ ascii ''    '')
          @ format_instruction @ (ascii ''\<newline>'' @ ascii ''    ''))
         format_instruction"
    by (rule includes_str_middle)
  then show "includes_str prompt_format format_instruction" by (simp add: prompt_format_def)
qed

lemma includes_str_trans: "includes_str a b \<Longrightarrow> includes_str b c \<Longrightarrow> includes_str a c"
  unfolding includes_str_sublist by (rule sublist_order.order.trans)

lemma shape_names:
  \<open>includes_str format_shape (ascii ''"refinedGoal"'')\<close>
  \<open>includes_str format_shape (ascii ''"schedule"'')\<close>
  \<open>includes_str format_shape (ascii ''"dayName"'')\<close>
  \<open>includes_str format_shape (ascii ''"tasks"'')\<close>
  \<open>includes_str format_shape (ascii ''"contentIdeas"'')\<close>
proof -
  have 1: \<open>includes_str (ascii ''      "refinedGoal": "string summary of remaining goals",\<newline>'')
             (ascii ''"refinedGoal"'')\<close>
    by (simp add: ascii_def startsWith_def)
  have 2: \<open>includes_str (ascii ''      "schedule": [\<newline>'') (ascii ''"schedule"'')\<close>
    by (simp add: ascii_def startsWith_def)
  have 3: \<open>includes_str (ascii ''          "dayName": "string (e.g. '') (ascii ''"dayName"'')\<close>
    by (simp add: ascii_def startsWith_def)
  have 4: \<open>includes_str (ascii ''          "tasks": ["string", "string"],\<newline>'') (ascii ''"tasks"'')\<close>
    by (simp add: ascii_def startsWith_def)
  have 5: \<open>includes_str (ascii ''          "contentIdeas": ["string", "string"]\<newline>'')
             (ascii ''"contentIdeas"'')\<close>
    by (simp add: ascii_def startsWith_def)
  show \<open>includes_str format_shape (ascii ''"refinedGoal"'')\<close>
    unfolding format_shape_def by (rule includes_str_here [OF 1] | rule includes_str_later)+
  show \<open>includes_str format_shape (ascii ''"schedule"'')\<close>
    unfolding format_shape_def by (rule includes_str_here [OF 2] | rule includes_str_later)+
  show \<open>includes_str format_shape (ascii ''"dayName"'')\<close>
    unfolding format_shape_def by (rule includes_str_here [OF 3] | rule includes_str_later)+
  show \<open>includes_str format_shape (ascii ''"tasks"'')\<close>
    unfolding format_shape_def by (rule includes_str_here [OF 4] | rule includes_str_later)+
  show \<open>includes_str format_shape (ascii ''"contentIdeas"'')\<close>
    unfolding format_shape_def by (rule includes_str_here [OF 5] | rule includes_str_later)+
qed

lemma user_prompt:
  "snd (buildSystemAndUserPrompt d g b)
     = prompt_1 @ d @ prompt_2 @ g @ prompt_3 @ (if b then prompt_format else [])"
  by (simp add: buildSystemAndUserPrompt_def Let_def)

lemma flag_true_contains:
  "includes_str (snd (buildSystemAndUserPrompt d g True)) format_shape"
  "includes_str (snd (buildSystemAndUserPrompt d g True)) format_instruction"
proof -
  have p: "snd (buildSystemAndUserPrompt d g True)
             = (prompt_1 @ d @ prompt_2 @ g @ prompt_3) @ prompt_format"
    by (simp add: user_prompt)
  show "includes_str (snd (buildSystemAndUserPrompt d g True)) format_shape"
    unfolding p by (rule includes_str_later) (rule format_contains(1))
  show "includes_str (snd (buildSystemAndUserPrompt d g True)) format_instruction"
    unfolding p by (rule includes_str_later) (rule format_contains(2))
qed


text \<open>
  C9, as stated, fails: the goal text is interpolated as it is, so a goal text that
  contains the format block puts the shape description and the instruction into the
  prompt although the flag is false.
\<close>

theorem prompt_format_counterexample:
  "includes_str (snd (buildSystemAndUserPrompt (ascii ''today'') prompt_format False)) format_shape
   \<and> includes_str (snd (buildSystemAndUserPrompt (ascii ''today'') prompt_format False))
       format_instruction"
  using format_contains by (simp add: user_prompt shape_in_base_prompt instruction_in_base_prompt)


text \<open>
  C9, amended. The user prompt contains both the shape description and the raw-JSON
  instruction exactly when the flag is true or the date string and the goal text supply
  both themselves; with the flag false, each of the two occurs in the prompt exactly
  when it occurs in the date string or in the goal text. The prompt for a true flag is
  the prompt for a false flag followed by the format block, which contains the shape
  description, with its five field names, and the instruction. Both outputs are the
  fixed text with the date string and the goal text put in, so equal inputs give equal
  outputs.
\<close>

theorem prompt_format_iff:
  \<open>((includes_str (snd (buildSystemAndUserPrompt d g b)) format_shape
       \<and> includes_str (snd (buildSystemAndUserPrompt d g b)) format_instruction)
      \<longleftrightarrow> b \<or> ((includes_str d format_shape \<or> includes_str g format_shape)
                \<and> (includes_str d format_instruction \<or> includes_str g format_instruction)))
   \<and> (includes_str (snd (buildSystemAndUserPrompt d g False)) format_shape
        \<longleftrightarrow> includes_str d format_shape \<or> includes_str g format_shape)
   \<and> (includes_str (snd (buildSystemAndUserPrompt d g False)) format_instruction
        \<longleftrightarrow> includes_str d format_instruction \<or> includes_str g format_instruction)
   \<and> snd (buildSystemAndUserPrompt d g True) = snd (buildSystemAndUserPrompt d g False) @ prompt_format
   \<and> includes_str prompt_format format_shape
   \<and> includes_str prompt_format format_instruction
   \<and> includes_str format_shape (ascii ''"refinedGoal"'')
   \<and> includes_str format_shape (ascii ''"schedule"'')
   \<and> includes_str format_shape (ascii ''"dayName"'')
   \<and> includes_str format_shape (ascii ''"tasks"'')
   \<and> includes_str format_shape (ascii ''"contentIdeas"'')
   \<and> buildSystemAndUserPrompt d g b
       = (systemInstruction_1 @ d @ systemInstruction_2
            @ (if b then systemInstruction_important else []) @ systemInstruction_3,
          prompt_1 @ d @ prompt_2 @ g @ prompt_3 @ (if b then prompt_format else []))\<close>
proof -
  have iff: "(includes_str (snd (buildSystemAndUserPrompt d g b)) format_shape
       \<and> includes_str (snd (buildSystemAndUserPrompt d g b)) format_instruction)
      \<longleftrightarrow> b \<or> ((includes_str d format_shape \<or> includes_str g format_shape)
                \<and> (includes_str d format_instruction \<or> includes_str g format_instruction))"
  proof (cases b)
    case True
    then show ?thesis using flag_true_contains by simp
  next
    case False
    then show ?thesis
      by (simp add: user_prompt shape_in_base_prompt instruction_in_base_prompt)
  qed
  have app: "snd (buildSystemAndUserPrompt d g True)
               = snd (buildSystemAndUserPrompt d g False) @ prompt_format"
    by (simp add: user_prompt)
  have form: "buildSystemAndUserPrompt d g b
       = (systemInstruction_1 @ d @ systemInstruction_2
            @ (if b then systemInstruction_important else []) @ systemInstruction_3,
          prompt_1 @ d @ prompt_2 @ g @ prompt_3 @ (if b then prompt_format else []))"
    by (simp add: buildSystemAndUserPrompt_def Let_def)
  have shape: "includes_str (snd (buildSystemAndUserPrompt d g False)) format_shape
        \<longleftrightarrow> includes_str d format_shape \<or> includes_str g format_shape"
    by (simp add: user_prompt shape_in_base_prompt)
  have instr: "includes_str (snd (buildSystemAndUserPrompt d g False)) format_instruction
        \<longleftrightarrow> includes_str d format_instruction \<or> includes_str g format_instruction"
    by (simp add: user_prompt instruction_in_base_prompt)
  show ?thesis
    using iff shape instr app form format_contains shape_names by blast
qed

theorem prompt_format_iff_witness:
  "\<not> (includes_str (snd (buildSystemAndUserPrompt (ascii ''today'') (ascii ''Plan my schedule'') False))
         format_shape
       \<and> includes_str (snd (buildSystemAndUserPrompt (ascii ''today'') (ascii ''Plan my schedule'') False))
         format_instruction)
   \<and> includes_str (snd (buildSystemAndUserPrompt (ascii ''today'') (ascii ''Plan my schedule'') True))
         format_shape
   \<and> includes_str (snd (buildSystemAndUserPrompt (ascii ''today'') (ascii ''Plan my schedule'') True))
         format_instruction"
proof -
  have no: "\<not> includes_str x format_shape" if "0x7B \<notin> set x" for x
    using that format_shape_facts(3) set_mono_sublist unfolding includes_str_sublist by blast
  have "\<not> includes_str (ascii ''today'') format_shape"
    "\<not> includes_str (ascii ''Plan my schedule'') format_shape"
    by (rule no, simp add: ascii_def)+
  then show ?thesis
    using prompt_format_iff [of "ascii ''today''" "ascii ''Plan my schedule''" False]
      prompt_format_iff [of "ascii ''today''" "ascii ''Plan my schedule''" True]
    by blast
qed

section \<open>The model list\<close>

text \<open>
  The comparator of the test platform is a total preorder, as the sort requires of a
  consistent comparator.
\<close>

lemma compareUnits_flip: "compareUnits y x = - compareUnits x y"
  by (induction x y rule: compareUnits.induct) auto

lemma compareUnits_trans:
  "compareUnits x y \<le> 0 \<Longrightarrow> compareUnits y z \<le> 0 \<Longrightarrow> compareUnits x z \<le> 0"
proof (induction x y arbitrary: z rule: compareUnits.induct)
  case 1
  then show ?case by simp
next
  case (2 y ys)
  then show ?case by (cases z) auto
next
  case (3 x xs)
  then show ?case by simp
next
  case (4 x xs y ys)
  show ?case
  proof (cases z)
    case Nil
    then show ?thesis using 4 by (auto split: if_splits)
  next
    case (Cons c cs)
    then show ?thesis using 4 by (auto split: if_splits)
  qed
qed

lemma mapModels_strings:
  "list_all (\<lambda>m. isString (member m (ascii ''id''))) ms \<Longrightarrow>
   mapModels ms
     = Inr (map (\<lambda>m. \<lparr> optValue = member m (ascii ''id''), optLabel = member m (ascii ''id'') \<rparr>) ms)"
proof (induction ms)
  case Nil
  then show ?case by simp
next
  case (Cons m ms)
  then have "m \<noteq> JNull" by (auto simp: member_def isString_def)
  then show ?case using Cons by (simp add: toModelOption_def)
qed

lemma compareModels_strings:
  "isString (optValue a) \<Longrightarrow> isString (optValue b) \<Longrightarrow>
   compareModels w a b = Inr (localeCompare w (optionId a) (optionId b))"
  by (auto simp: compareModels_def optionId_def isString_def split: option.splits json.splits)

lemma insertModel_strings:
  assumes flip: "\<forall>x y. 0 \<le> localeCompare w x y \<longrightarrow> localeCompare w y x \<le> 0"
    and trans: "\<forall>x y z. localeCompare w x y \<le> 0 \<and> localeCompare w y z \<le> 0 \<longrightarrow> localeCompare w x z \<le> 0"
    and "isString (optValue x)" and "list_all (\<lambda>e. isString (optValue e)) ys"
  shows "\<exists>r. insertModel w x ys = Inr r \<and> mset r = add_mset x (mset ys)
           \<and> (sorted_wrt (\<lambda>a b. localeCompare w a b \<le> 0) (map optionId ys) \<longrightarrow>
                sorted_wrt (\<lambda>a b. localeCompare w a b \<le> 0) (map optionId r))"
  using assms(4)
proof (induction ys)
  case Nil
  then show ?case by simp
next
  case (Cons y ys)
  let ?le = "\<lambda>a b. localeCompare w a b \<le> 0"
  have cmp: "compareModels w x y = Inr (localeCompare w (optionId x) (optionId y))"
    using Cons.prems assms(3) by (simp add: compareModels_strings)
  show ?case
  proof (cases "localeCompare w (optionId x) (optionId y) < 0")
    case True
    have "sorted_wrt ?le (map optionId (x # y # ys))" if s: "sorted_wrt ?le (map optionId (y # ys))"
    proof -
      have "?le (optionId x) (optionId y)" using True by simp
      moreover have "?le (optionId x) (optionId z)" if "z \<in> set ys" for z
      proof -
        have "?le (optionId y) (optionId z)" using s that by simp
        moreover have "?le (optionId x) (optionId y)" using True by simp
        ultimately show ?thesis using trans by blast
      qed
      ultimately show ?thesis using s by simp
    qed
    then show ?thesis using True cmp by simp
  next
    case False
    from Cons obtain r where r: "insertModel w x ys = Inr r" "mset r = add_mset x (mset ys)"
      "sorted_wrt ?le (map optionId ys) \<longrightarrow> sorted_wrt ?le (map optionId r)"
      by auto
    have "sorted_wrt ?le (map optionId (y # r))" if s: "sorted_wrt ?le (map optionId (y # ys))"
    proof -
      have "0 \<le> localeCompare w (optionId x) (optionId y)" using False by simp
      then have "?le (optionId y) (optionId x)" using flip by blast
      moreover have "set r = insert x (set ys)"
        using mset_eq_setD [of r "x # ys"] r(2) by simp
      ultimately show ?thesis using s r(3) by simp
    qed
    then show ?thesis using False cmp r by simp
  qed
qed

lemma sortModels_strings:
  assumes flip: "\<forall>x y. 0 \<le> localeCompare w x y \<longrightarrow> localeCompare w y x \<le> 0"
    and trans: "\<forall>x y z. localeCompare w x y \<le> 0 \<and> localeCompare w y z \<le> 0 \<longrightarrow> localeCompare w x z \<le> 0"
  shows "list_all (\<lambda>e. isString (optValue e)) xs \<Longrightarrow> list_all (\<lambda>e. isString (optValue e)) acc \<Longrightarrow>
         sorted_wrt (\<lambda>a b. localeCompare w a b \<le> 0) (map optionId acc) \<Longrightarrow>
         \<exists>r. sortModels w xs acc = Inr r \<and> mset r = mset xs + mset acc
           \<and> sorted_wrt (\<lambda>a b. localeCompare w a b \<le> 0) (map optionId r)"
proof (induction xs arbitrary: acc)
  case Nil
  then show ?case by simp
next
  case (Cons x xs)
  from insertModel_strings [OF flip trans, of x acc] Cons.prems
  obtain a where a: "insertModel w x acc = Inr a" "mset a = add_mset x (mset acc)"
    "sorted_wrt (\<lambda>a b. localeCompare w a b \<le> 0) (map optionId a)"
    by auto
  have "set a = insert x (set acc)"
    using mset_eq_setD [of a "x # acc"] a(2) by simp
  then have "list_all (\<lambda>e. isString (optValue e)) a"
    using Cons.prems by (simp add: list_all_iff)
  with Cons.IH [of a] Cons.prems a obtain r where
    "sortModels w xs a = Inr r" "mset r = mset xs + mset a"
    "sorted_wrt (\<lambda>a b. localeCompare w a b \<le> 0) (map optionId r)"
    by auto
  then show ?case using a by simp
qed


lemma listModels_strings:
  assumes flip: "\<forall>x y. 0 \<le> localeCompare w x y \<longrightarrow> localeCompare w y x \<le> 0"
    and trans: "\<forall>x y z. localeCompare w x y \<le> 0 \<and> localeCompare w y z \<le> 0 \<longrightarrow> localeCompare w x z \<le> 0"
    and data: "member data (ascii ''data'') = Some (JArray ms)"
    and strings: "list_all (\<lambda>m. isString (member m (ascii ''id''))) ms"
  shows "ms = [] \<longrightarrow> listModels w data = Inl (Error [0x672A, 0x627E, 0x5230, 0x6A21, 0x578B])"
    and "ms \<noteq> [] \<longrightarrow> (\<exists>r. listModels w data = Inr r
           \<and> list_all (\<lambda>e. optLabel e = optValue e) r
           \<and> mset (map optValue r) = mset (map (\<lambda>m. member m (ascii ''id'')) ms)
           \<and> sorted_wrt (\<lambda>a b. localeCompare w a b \<le> 0) (map optionId r))"
proof -
  let ?f = "\<lambda>m. \<lparr> optValue = member m (ascii ''id''), optLabel = member m (ascii ''id'') \<rparr>"
  have obj: "\<not> falsy (Some data)"
    using data by (cases data) (simp_all add: member_def)
  have m: "mapModels ms = Inr (map ?f ms)"
    using strings by (rule mapModels_strings)
  have "list_all (\<lambda>e. isString (optValue e)) (map ?f ms)"
    using strings by (simp add: list_all_iff)
  then obtain r where r: "sortModels w (map ?f ms) [] = Inr r" "mset r = mset (map ?f ms)"
    "sorted_wrt (\<lambda>a b. localeCompare w a b \<le> 0) (map optionId r)"
    using sortModels_strings [OF flip trans, of "map ?f ms" "[]"] by auto
  have l: "listModels w data
             = (if length r = 0 then Inl (Error [0x672A, 0x627E, 0x5230, 0x6A21, 0x578B]) else Inr r)"
    using obj data m r(1) by (simp add: listModels_def)
  have "length r = length (map ?f ms)"
    using r(2) by (rule mset_eq_length)
  then have len: "length r = length ms" by simp
  have "set r = set (map ?f ms)"
    using r(2) by (rule mset_eq_setD)
  then have set: "set r = ?f ` set ms" by simp
  show "ms = [] \<longrightarrow> listModels w data = Inl (Error [0x672A, 0x627E, 0x5230, 0x6A21, 0x578B])"
    using l len by simp
  have "list_all (\<lambda>e. optLabel e = optValue e) r"
    using set by (auto simp: list_all_iff)
  moreover have "mset (map optValue r) = mset (map (\<lambda>m. member m (ascii ''id'')) ms)"
  proof -
    have "mset (map optValue r) = image_mset optValue (mset (map ?f ms))"
      using r(2) by simp
    also have "\<dots> = mset (map (\<lambda>m. member m (ascii ''id'')) ms)"
      by (simp add: image_mset.compositionality comp_def)
    finally show ?thesis .
  qed
  ultimately show "ms \<noteq> [] \<longrightarrow> (\<exists>r. listModels w data = Inr r
           \<and> list_all (\<lambda>e. optLabel e = optValue e) r
           \<and> mset (map optValue r) = mset (map (\<lambda>m. member m (ascii ''id'')) ms)
           \<and> sorted_wrt (\<lambda>a b. localeCompare w a b \<le> 0) (map optionId r))"
    using l len r(3) by simp
qed

lemma handleVerifyOpenAI_outcome:
  assumes "apiKey s \<noteq> []" and "fetch w (modelsRequest s) = Inr r" and "ok r"
    and "JSON_parse (responseText r) = Some data"
  shows "listModels w data = Inr models \<Longrightarrow>
           connectionStatus (snd (handleVerifyOpenAI w s st)) = Success
           \<and> fetchedModels (snd (handleVerifyOpenAI w s st)) = models"
    and "listModels w data = Inl (Error m) \<Longrightarrow> m \<noteq> [] \<Longrightarrow>
           connectionStatus (snd (handleVerifyOpenAI w s st)) = Failure
           \<and> statusMessage (snd (handleVerifyOpenAI w s st)) = m
           \<and> fetchedModels (snd (handleVerifyOpenAI w s st)) = fetchedModels st"
    and "fst (handleVerifyOpenAI w s st) = [Fetch (modelsRequest s)]"
  using assms
  by (simp_all add: handleVerifyOpenAI_def truthy_def Let_def modelsResponse_def
      JSON_parse_throw_def message_def orElse_def)


lemma parse_models_body:
  \<open>JSON_parse (ascii ''{"object":"list","data":[{"id":"gpt-4o"},{"id":"deepseek-chat"}]}'')
     = Some (JObject [(ascii ''object'', JString (ascii ''list'')),
          (ascii ''data'', JArray [JObject [(ascii ''id'', JString (ascii ''gpt-4o''))],
                                   JObject [(ascii ''id'', JString (ascii ''deepseek-chat''))]])])\<close>
  by code_simp

lemma parse_no_models: \<open>JSON_parse (ascii ''{"data":[]}'') = Some (JObject [(ascii ''data'', JArray [])])\<close>
  by code_simp


lemma parse_numeric_ids:
  \<open>JSON_parse (ascii ''{"data":[{"id":1},{"id":2}]}'')
     = Some (JObject [(ascii ''data'', JArray [JObject [(ascii ''id'', JNumber (ascii ''1''))],
                                               JObject [(ascii ''id'', JNumber (ascii ''2''))]])])\<close>
  by code_simp

lemma parse_mixed_case_ids:
  \<open>JSON_parse (ascii ''{"data":[{"id":"B"},{"id":"a"}]}'')
     = Some (JObject [(ascii ''data'', JArray [JObject [(ascii ''id'', JString (ascii ''B''))],
                                               JObject [(ascii ''id'', JString (ascii ''a''))]])])\<close>
  by code_simp

lemma list_numeric_ids:
  "listModels w (JObject [(ascii ''data'', JArray [JObject [(ascii ''id'', JNumber (ascii ''1''))],
                                               JObject [(ascii ''id'', JNumber (ascii ''2''))]])])
     = Inl TypeError"
  by (simp add: listModels_def member_def toModelOption_def compareModels_def)

lemma list_mixed_case_ids:
  "listModels (collatingWorld r)
     (JObject [(ascii ''data'', JArray [JObject [(ascii ''id'', JString (ascii ''B''))],
                                        JObject [(ascii ''id'', JString (ascii ''a''))]])])
     = Inr [\<lparr> optValue = Some (JString (ascii ''a'')), optLabel = Some (JString (ascii ''a'')) \<rparr>,
            \<lparr> optValue = Some (JString (ascii ''B'')), optLabel = Some (JString (ascii ''B'')) \<rparr>]"
proof -
  have c: "compareCollated (ascii ''a'') (ascii ''B'') = - 1"
    by (simp add: compareCollated_def foldCase_def ascii_def Let_def)
  show ?thesis
    by (simp add: listModels_def member_def toModelOption_def compareModels_def collatingWorld_def c)
qed

text \<open>
  C5, as stated, fails in two ways. Descriptors whose ids are numbers make the
  comparator throw, so the probe ends in the error state although the array is not
  empty. And the order is that of \<^verbatim>\<open>localeCompare\<close>: on a platform that collates
  without regard to case, the ids \<^verbatim>\<open>B\<close>, \<^verbatim>\<open>a\<close> are listed as \<^verbatim>\<open>a\<close>, \<^verbatim>\<open>B\<close>, which is
  not ascending code unit by code unit.
\<close>

theorem models_listed_counterexample:
  \<open>connectionStatus (snd (handleVerifyOpenAI
       (testWorld (testResponse 200 (ascii ''{"data":[{"id":1},{"id":2}]}'')) None None)
       (testSettings (ascii ''openai'') (ascii ''sk-1'') None) testState)) = Failure
   \<and> map optionId (fetchedModels (snd (handleVerifyOpenAI
       (collatingWorld (testResponse 200 (ascii ''{"data":[{"id":"B"},{"id":"a"}]}'')))
       (testSettings (ascii ''openai'') (ascii ''sk-1'') None) testState)))
       = [ascii ''a'', ascii ''B'']
   \<and> \<not> sorted_wrt (\<lambda>x y. compareUnits x y \<le> 0) [ascii ''a'', ascii ''B'']\<close>
proof -
  let ?s = "testSettings (ascii ''openai'') (ascii ''sk-1'') None"
  have k: "apiKey ?s \<noteq> []" by (simp add: testSettings_def ascii_def)
  have 1: \<open>connectionStatus (snd (handleVerifyOpenAI
       (testWorld (testResponse 200 (ascii ''{"data":[{"id":1},{"id":2}]}'')) None None)
       ?s testState)) = Failure\<close>
    using k
    by (simp add: handleVerifyOpenAI_def truthy_def Let_def testWorld_def modelsResponse_def ok_def
        testResponse_def JSON_parse_throw_def parse_numeric_ids list_numeric_ids)
  have 2: \<open>fetchedModels (snd (handleVerifyOpenAI
       (collatingWorld (testResponse 200 (ascii ''{"data":[{"id":"B"},{"id":"a"}]}'')))
       ?s testState))
       = [\<lparr> optValue = Some (JString (ascii ''a'')), optLabel = Some (JString (ascii ''a'')) \<rparr>,
          \<lparr> optValue = Some (JString (ascii ''B'')), optLabel = Some (JString (ascii ''B'')) \<rparr>]\<close>
  proof -
    have f: \<open>fetch (collatingWorld (testResponse 200 (ascii ''{"data":[{"id":"B"},{"id":"a"}]}'')))
               (modelsRequest ?s)
             = Inr (testResponse 200 (ascii ''{"data":[{"id":"B"},{"id":"a"}]}''))\<close>
      by (simp add: collatingWorld_def testWorld_def)
    have ok: \<open>ok (testResponse 200 (ascii ''{"data":[{"id":"B"},{"id":"a"}]}''))\<close>
      by (simp add: ok_def testResponse_def)
    have body: \<open>JSON_parse (responseText (testResponse 200 (ascii ''{"data":[{"id":"B"},{"id":"a"}]}'')))
        = Some (JObject [(ascii ''data'', JArray [JObject [(ascii ''id'', JString (ascii ''B''))],
                                                  JObject [(ascii ''id'', JString (ascii ''a''))]])])\<close>
      unfolding testResponse_def by (simp add: parse_mixed_case_ids)
    show ?thesis
      using handleVerifyOpenAI_outcome(1) [OF k f ok body list_mixed_case_ids] by simp
  qed
  have 3: "\<not> sorted_wrt (\<lambda>x y. compareUnits x y \<le> 0) [ascii ''a'', ascii ''B'']"
    by (simp add: ascii_def)
  show ?thesis unfolding 2 using 1 3 by (simp add: optionId_def)
qed

text \<open>
  C5, amended. Let the probe receive a 2xx response whose body is JSON with an array
  \<^verbatim>\<open>data\<close> of descriptors, each with a string \<^verbatim>\<open>id\<close>, on a platform whose
  \<^verbatim>\<open>localeCompare\<close> is a consistent comparator. If the array is not empty, the probe
  succeeds and the list it stores has one entry per descriptor (duplicates kept), each
  with its label equal to its value, the values being the ids, in ascending order of
  \<^verbatim>\<open>localeCompare\<close>. If the array is empty, the probe ends in the error state with the
  no-models message, and the stored list is left as it was. One request is issued
  either way.
\<close>

theorem models_listed:
  assumes "apiKey s \<noteq> []" and "fetch w (modelsRequest s) = Inr r" and "ok r"
    and "JSON_parse (responseText r) = Some data"
    and "member data (ascii ''data'') = Some (JArray ms)"
    and "list_all (\<lambda>m. isString (member m (ascii ''id''))) ms"
    and "\<forall>x y. 0 \<le> localeCompare w x y \<longrightarrow> localeCompare w y x \<le> 0"
    and "\<forall>x y z. localeCompare w x y \<le> 0 \<and> localeCompare w y z \<le> 0 \<longrightarrow> localeCompare w x z \<le> 0"
  shows "(ms \<noteq> [] \<longrightarrow>
            connectionStatus (snd (handleVerifyOpenAI w s st)) = Success
          \<and> list_all (\<lambda>e. optLabel e = optValue e) (fetchedModels (snd (handleVerifyOpenAI w s st)))
          \<and> mset (map optValue (fetchedModels (snd (handleVerifyOpenAI w s st))))
              = mset (map (\<lambda>m. member m (ascii ''id'')) ms)
          \<and> sorted_wrt (\<lambda>a b. localeCompare w a b \<le> 0)
              (map optionId (fetchedModels (snd (handleVerifyOpenAI w s st)))))
       \<and> (ms = [] \<longrightarrow>
            connectionStatus (snd (handleVerifyOpenAI w s st)) = Failure
          \<and> statusMessage (snd (handleVerifyOpenAI w s st)) = [0x672A, 0x627E, 0x5230, 0x6A21, 0x578B]
          \<and> fetchedModels (snd (handleVerifyOpenAI w s st)) = fetchedModels st)
       \<and> fst (handleVerifyOpenAI w s st) = [Fetch (modelsRequest s)]"
proof (intro conjI impI)
  note out = handleVerifyOpenAI_outcome [OF assms(1-4)]
  note lm = listModels_strings [OF assms(7,8,5,6)]
  show "fst (handleVerifyOpenAI w s st) = [Fetch (modelsRequest s)]" by (rule out(3))
  {
    assume "ms \<noteq> []"
    then obtain models where models: "listModels w data = Inr models"
      "list_all (\<lambda>e. optLabel e = optValue e) models"
      "mset (map optValue models) = mset (map (\<lambda>m. member m (ascii ''id'')) ms)"
      "sorted_wrt (\<lambda>a b. localeCompare w a b \<le> 0) (map optionId models)"
      using lm(2) by blast
    have st: "connectionStatus (snd (handleVerifyOpenAI w s st)) = Success"
      "fetchedModels (snd (handleVerifyOpenAI w s st)) = models"
      using out(1) [OF models(1)] by simp_all
    show "connectionStatus (snd (handleVerifyOpenAI w s st)) = Success" by (rule st(1))
    show "list_all (\<lambda>e. optLabel e = optValue e) (fetchedModels (snd (handleVerifyOpenAI w s st)))"
      unfolding st(2) by (rule models(2))
    show "mset (map optValue (fetchedModels (snd (handleVerifyOpenAI w s st))))
              = mset (map (\<lambda>m. member m (ascii ''id'')) ms)"
      unfolding st(2) by (rule models(3))
    show "sorted_wrt (\<lambda>a b. localeCompare w a b \<le> 0)
              (map optionId (fetchedModels (snd (handleVerifyOpenAI w s st))))"
      unfolding st(2) by (rule models(4))
  }
  {
    assume "ms = []"
    then have "listModels w data = Inl (Error [0x672A, 0x627E, 0x5230, 0x6A21, 0x578B])"
      using lm(1) by blast
    from out(2) [OF this]
    have f: "connectionStatus (snd (handleVerifyOpenAI w s st)) = Failure
           \<and> statusMessage (snd (handleVerifyOpenAI w s st)) = [0x672A, 0x627E, 0x5230, 0x6A21, 0x578B]
           \<and> fetchedModels (snd (handleVerifyOpenAI w s st)) = fetchedModels st"
      by simp
    show "connectionStatus (snd (handleVerifyOpenAI w s st)) = Failure" using f by blast
    show "statusMessage (snd (handleVerifyOpenAI w s st)) = [0x672A, 0x627E, 0x5230, 0x6A21, 0x578B]"
      using f by blast
    show "fetchedModels (snd (handleVerifyOpenAI w s st)) = fetchedModels st" using f by blast
  }
qed


theorem models_listed_witness:
  \<open>connectionStatus (snd (handleVerifyOpenAI
       (testWorld (testResponse 200
          (ascii ''{"object":"list","data":[{"id":"gpt-4o"},{"id":"deepseek-chat"}]}'')) None None)
       (testSettings (ascii ''openai'') (ascii ''sk-1'') None) testState)) = Success
   \<and> sorted_wrt (\<lambda>a b. compareUnits a b \<le> 0)
       (map optionId (fetchedModels (snd (handleVerifyOpenAI
          (testWorld (testResponse 200
             (ascii ''{"object":"list","data":[{"id":"gpt-4o"},{"id":"deepseek-chat"}]}'')) None None)
          (testSettings (ascii ''openai'') (ascii ''sk-1'') None) testState))))
   \<and> connectionStatus (snd (handleVerifyOpenAI
       (testWorld (testResponse 200 (ascii ''{"data":[]}'')) None None)
       (testSettings (ascii ''openai'') (ascii ''sk-1'') None) testState)) = Failure
   \<and> statusMessage (snd (handleVerifyOpenAI
       (testWorld (testResponse 200 (ascii ''{"data":[]}'')) None None)
       (testSettings (ascii ''openai'') (ascii ''sk-1'') None) testState))
     = [0x672A, 0x627E, 0x5230, 0x6A21, 0x578B]\<close>
proof -
  let ?r = \<open>testResponse 200 (ascii ''{"object":"list","data":[{"id":"gpt-4o"},{"id":"deepseek-chat"}]}'')\<close>
  let ?e = \<open>testResponse 200 (ascii ''{"data":[]}'')\<close>
  let ?w = "testWorld ?r None None"
  let ?v = "testWorld ?e None None"
  let ?s = "testSettings (ascii ''openai'') (ascii ''sk-1'') None"
  let ?ms = "[JObject [(ascii ''id'', JString (ascii ''gpt-4o''))],
              JObject [(ascii ''id'', JString (ascii ''deepseek-chat''))]]"
  let ?data = "JObject [(ascii ''object'', JString (ascii ''list'')), (ascii ''data'', JArray ?ms)]"
  let ?none = "JObject [(ascii ''data'', JArray [])]"
  have k: "apiKey ?s \<noteq> []" by (simp add: testSettings_def ascii_def)
  have f: "fetch ?w (modelsRequest ?s) = Inr ?r" "fetch ?v (modelsRequest ?s) = Inr ?e"
    by (simp_all add: testWorld_def)
  have ok: "ok ?r" "ok ?e" by (simp_all add: ok_def testResponse_def)
  have body: "JSON_parse (responseText ?r) = Some ?data" "JSON_parse (responseText ?e) = Some ?none"
    unfolding testResponse_def by (simp_all add: parse_models_body parse_no_models)
  have d: "member ?data (ascii ''data'') = Some (JArray ?ms)"
    "member ?none (ascii ''data'') = Some (JArray [])"
    by (simp_all add: member_def ascii_def)
  have ids: "list_all (\<lambda>m. isString (member m (ascii ''id''))) ?ms"
    "list_all (\<lambda>m. isString (member m (ascii ''id''))) []"
    by (simp_all add: member_def isString_def)
  have lc: "localeCompare ?w = compareUnits" "localeCompare ?v = compareUnits"
    by (simp_all add: testWorld_def)
  have flip: "\<forall>x y. 0 \<le> compareUnits x y \<longrightarrow> compareUnits y x \<le> 0"
  proof (intro allI impI)
    fix x y :: jsstring
    assume "0 \<le> compareUnits x y"
    then show "compareUnits y x \<le> 0" using compareUnits_flip [of y x] by linarith
  qed
  have trans: "\<forall>x y z. compareUnits x y \<le> 0 \<and> compareUnits y z \<le> 0 \<longrightarrow> compareUnits x z \<le> 0"
    using compareUnits_trans by blast
  have ne: "?ms \<noteq> []" by simp
  note a = models_listed [OF k f(1) ok(1) body(1) d(1) ids(1), unfolded lc, OF flip trans, of testState]
  note b = models_listed [OF k f(2) ok(2) body(2) d(2) ids(2), unfolded lc, OF flip trans, of testState]
  show ?thesis using a b ne by blast
qed

end
